theory Spec2Isabelle
  imports Main "HOL-Library.AList" "HOL-Library.Multiset"
begin

section \<open>Python dictionaries\<close>

text \<open>
  A Python \<open>dict\<close> is modelled as the list of its items in iteration order. A
  dictionary has every key once (\<open>wf_dict\<close>). Reading a key is \<^const>\<open>map_of\<close>,
  \<open>d[k] = v\<close> is \<^const>\<open>AList.update\<close> (an existing key keeps its place, a new
  key goes to the end), and Python's \<open>==\<close> on dictionaries, which ignores the
  order of the items, is equality of the \<^const>\<open>map_of\<close> views.
\<close>

type_synonym ('k, 'v) dict = "('k \<times> 'v) list"

definition wf_dict :: "('k, 'v) dict \<Rightarrow> bool" where
  "wf_dict d = distinct (map fst d)"

text \<open>\<open>d.get(k, default)\<close>\<close>

definition dict_get :: "('k, 'v) dict \<Rightarrow> 'k \<Rightarrow> 'v \<Rightarrow> 'v" where
  "dict_get d k dflt = (case map_of d k of None \<Rightarrow> dflt | Some v \<Rightarrow> v)"

section \<open>Merge primitives (\<open>kafka_utils/util/monitoring.py\<close>)\<close>

text \<open>
  \<^verbatim>\<open>
  def merge_partition_offsets(*partition_offsets):
      output = dict()
      for partition_offset in partition_offsets:
          for partition, offset in six.iteritems(partition_offset):
              prev_offset = output.get(partition, 0)
              output[partition] = max(prev_offset, offset)
      return output
  \<close>
  The inner loop is \<open>merge_items\<close>, the outer loop \<open>merge_sources\<close>; both carry
  \<open>output\<close>.
\<close>

fun merge_items :: "(int \<times> int) list \<Rightarrow> (int, int) dict \<Rightarrow> (int, int) dict" where
  "merge_items [] output = output"
| "merge_items ((partition', offset) # rest) output =
     (let prev_offset = dict_get output partition' 0
      in merge_items rest (AList.update partition' (max prev_offset offset) output))"

fun merge_sources :: "(int, int) dict list \<Rightarrow> (int, int) dict \<Rightarrow> (int, int) dict" where
  "merge_sources [] output = output"
| "merge_sources (partition_offset # rest) output =
     merge_sources rest (merge_items partition_offset output)"

definition merge_partition_offsets :: "(int, int) dict list \<Rightarrow> (int, int) dict" where
  "merge_partition_offsets partition_offsets = merge_sources partition_offsets []"

text \<open>
  \<^verbatim>\<open>
  def merge_offsets_metadata(topics, *offsets_responses):
      result = dict()
      for topic in topics:
          partition_offsets = [
              response[topic]
              for response in offsets_responses
              if topic in response
          ]
          result[topic] = merge_partition_offsets(*partition_offsets)
      return result
  \<close>
\<close>

type_synonym offsets = "(string, (int, int) dict) dict"

fun merge_topics :: "string list \<Rightarrow> offsets list \<Rightarrow> offsets \<Rightarrow> offsets" where
  "merge_topics [] offsets_responses result = result"
| "merge_topics (topic # rest) offsets_responses result =
     (let partition_offsets =
            List.map_filter (\<lambda>response. map_of response topic) offsets_responses
      in merge_topics rest offsets_responses
           (AList.update topic (merge_partition_offsets partition_offsets) result))"

definition merge_offsets_metadata :: "string list \<Rightarrow> offsets list \<Rightarrow> offsets" where
  "merge_offsets_metadata topics offsets_responses =
     merge_topics topics offsets_responses []"

subsection \<open>The offsets a partition is seen with\<close>

text \<open>
  The offsets that the items of one source, and of a sequence of sources, give for
  a partition, in iteration order. For a dictionary this is at most one offset per
  source: the one the source maps the partition to.
\<close>

definition offsets_for :: "int \<Rightarrow> (int, int) dict \<Rightarrow> int list" where
  "offsets_for p d = map snd (filter (\<lambda>item. fst item = p) d)"

definition seen_offsets :: "(int, int) dict list \<Rightarrow> int \<Rightarrow> int list" where
  "seen_offsets sources p = concat (map (offsets_for p) sources)"

text \<open>
  The reading of the merge that takes the maximum offset seen, and nothing else:
  a partition that no source has is not in the map.
\<close>

definition max_seen :: "(int, int) dict list \<Rightarrow> int \<Rightarrow> int option" where
  "max_seen sources p =
     (if seen_offsets sources p = [] then None
      else Some (Max (set (seen_offsets sources p))))"

section \<open>Errors, collaborators and the calls made to them\<close>

text \<open>
  An exception is a value of \<open>error\<close>; a call that may raise returns
  \<open>error + 'a\<close>, \<open>Inl\<close> being the raise. \<open>OtherError\<close> stands for every
  failure of a collaborator that this module does not name.
\<close>

datatype error =
    KafkaUnavailableError
  | GroupCoordinatorNotAvailableError
  | InvalidOffsetStorageError string
  | KeyError
  | OtherError string

definition bind_err :: "error + 'a \<Rightarrow> ('a \<Rightarrow> error + 'b) \<Rightarrow> error + 'b" where
  "bind_err r f = (case r of Inl e \<Rightarrow> Inl e | Inr v \<Rightarrow> f v)"

text \<open>\<open>d[k]\<close>, which raises \<open>KeyError\<close> on a missing key.\<close>

definition lookup :: "('k, 'v) dict \<Rightarrow> 'k \<Rightarrow> error + 'v" where
  "lookup d k = (case map_of d k of None \<Rightarrow> Inl KeyError | Some v \<Rightarrow> Inr v)"

text \<open>
  The entries of the watermark result are read through \<open>.highmark\<close> and
  \<open>.lowmark\<close> only; their type is declared outside this module. The fields of
  both tuples carry a prefix, since the names \<open>topic\<close> and \<open>partition\<close> are
  needed for variables.
\<close>

record PartitionOffsets =
  po_highmark :: int
  po_lowmark :: int

type_synonym watermarks = "(string, (int, PartitionOffsets) dict) dict"

record ConsumerPartitionOffsets =
  cpo_topic :: string
  cpo_partition :: int
  cpo_current :: int
  cpo_highmark :: int
  cpo_lowmark :: int

text \<open>
  The collaborators are parameters: each takes the state \<open>'w\<close> of the Kafka client
  (and of the cluster behind it) and returns its outcome and the new state, so a
  collaborator may answer differently from one call to the next. The model keeps,
  beside the client, the list of the calls made so far.
\<close>

datatype call =
    LoadMetadataForTopics
  | GetCurrentConsumerOffsets string "string list" bool string
  | GetTopicsWatermarks "string list" bool

record 'w collaborators =
  load_metadata_for_topics :: "'w \<Rightarrow> (error + unit) \<times> 'w"
  get_current_consumer_offsets ::
    "'w \<Rightarrow> string \<Rightarrow> string list \<Rightarrow> bool \<Rightarrow> string \<Rightarrow> (error + offsets) \<times> 'w"
  get_topics_watermarks :: "'w \<Rightarrow> string list \<Rightarrow> bool \<Rightarrow> (error + watermarks) \<times> 'w"

record 'w state =
  kafka_client :: 'w
  calls :: "call list"

definition call_load_metadata_for_topics ::
  "'w collaborators \<Rightarrow> 'w state \<Rightarrow> (error + unit) \<times> 'w state" where
  "call_load_metadata_for_topics env s =
     (case load_metadata_for_topics env (kafka_client s) of
        (r, w) \<Rightarrow> (r, \<lparr>kafka_client = w, calls = calls s @ [LoadMetadataForTopics]\<rparr>))"

definition call_get_current_consumer_offsets ::
  "'w collaborators \<Rightarrow> 'w state \<Rightarrow> string \<Rightarrow> string list \<Rightarrow> bool \<Rightarrow> string
     \<Rightarrow> (error + offsets) \<times> 'w state" where
  "call_get_current_consumer_offsets env s group' topics raise_on_error offset_storage =
     (case get_current_consumer_offsets env (kafka_client s) group' topics raise_on_error
             offset_storage of
        (r, w) \<Rightarrow>
          (r, \<lparr>kafka_client = w,
               calls = calls s @
                 [GetCurrentConsumerOffsets group' topics raise_on_error offset_storage]\<rparr>))"

definition call_get_topics_watermarks ::
  "'w collaborators \<Rightarrow> 'w state \<Rightarrow> string list \<Rightarrow> bool \<Rightarrow> (error + watermarks) \<times> 'w state" where
  "call_get_topics_watermarks env s topics raise_on_error =
     (case get_topics_watermarks env (kafka_client s) topics raise_on_error of
        (r, w) \<Rightarrow>
          (r, \<lparr>kafka_client = w,
               calls = calls s @ [GetTopicsWatermarks topics raise_on_error]\<rparr>))"

section \<open>Offset reconciliation (\<open>kafka_utils/util/monitoring.py\<close>)\<close>

text \<open>
  \<^verbatim>\<open>
  def _get_current_offsets_dual(kafka_client, group, topics, raise_on_error):
      zk_offsets = get_current_consumer_offsets(
          kafka_client, group, topics, False, 'zookeeper',
      )
      try:
          kafka_offsets = get_current_consumer_offsets(
              kafka_client, group, topics, False, 'kafka',
          )
      except GroupCoordinatorNotAvailableError:
          kafka_offsets = {}
      return merge_offsets_metadata(topics, zk_offsets, kafka_offsets)
  \<close>
\<close>

definition get_current_offsets_dual ::
  "'w collaborators \<Rightarrow> 'w state \<Rightarrow> string \<Rightarrow> string list \<Rightarrow> bool
     \<Rightarrow> (error + offsets) \<times> 'w state" where
  "get_current_offsets_dual env s group' topics raise_on_error =
     (case call_get_current_consumer_offsets env s group' topics False ''zookeeper'' of
        (Inl e, s1) \<Rightarrow> (Inl e, s1)
      | (Inr zk_offsets, s1) \<Rightarrow>
          (case call_get_current_consumer_offsets env s1 group' topics False ''kafka'' of
             (Inl GroupCoordinatorNotAvailableError, s2) \<Rightarrow>
               (Inr (merge_offsets_metadata topics [zk_offsets, []]), s2)
           | (Inl e, s2) \<Rightarrow> (Inl e, s2)
           | (Inr kafka_offsets, s2) \<Rightarrow>
               (Inr (merge_offsets_metadata topics [zk_offsets, kafka_offsets]), s2)))"

text \<open>
  \<^verbatim>\<open>
  def get_current_offsets(kafka_client, group, topics, raise_on_error, offset_storage):
      if offset_storage in ['zookeeper', 'kafka']:
          return get_current_consumer_offsets(
              kafka_client, group, topics, raise_on_error, offset_storage
          )
      elif offset_storage == 'dual':
          return _get_current_offsets_dual(
              kafka_client, group, topics, raise_on_error,
          )
      else:
          raise InvalidOffsetStorageError(offset_storage)
  \<close>
\<close>

definition get_current_offsets ::
  "'w collaborators \<Rightarrow> 'w state \<Rightarrow> string \<Rightarrow> string list \<Rightarrow> bool \<Rightarrow> string
     \<Rightarrow> (error + offsets) \<times> 'w state" where
  "get_current_offsets env s group' topics raise_on_error offset_storage =
     (if offset_storage \<in> set [''zookeeper'', ''kafka''] then
        call_get_current_consumer_offsets env s group' topics raise_on_error offset_storage
      else if offset_storage = ''dual'' then
        get_current_offsets_dual env s group' topics raise_on_error
      else (Inl (InvalidOffsetStorageError offset_storage), s))"

text \<open>
  The two fetches of the dual mode, as that function makes them: the zookeeper-backed
  one from the state it is entered in, the kafka-native one from the state the first
  leaves.
\<close>

abbreviation zk_fetch ::
  "'w collaborators \<Rightarrow> 'w state \<Rightarrow> string \<Rightarrow> string list \<Rightarrow> (error + offsets) \<times> 'w state" where
  "zk_fetch env s group' topics \<equiv>
     call_get_current_consumer_offsets env s group' topics False ''zookeeper''"

abbreviation kafka_fetch ::
  "'w collaborators \<Rightarrow> 'w state \<Rightarrow> string \<Rightarrow> string list \<Rightarrow> (error + offsets) \<times> 'w state" where
  "kafka_fetch env s group' topics \<equiv>
     call_get_current_consumer_offsets env (snd (zk_fetch env s group' topics)) group' topics
       False ''kafka''"

section \<open>Metadata refresh and the offsets-and-watermarks assembler\<close>

text \<open>
  The refresh is the same block at the head of the three entry points:
  \<^verbatim>\<open>
      try:
          kafka_client.load_metadata_for_topics()
      except KafkaUnavailableError:
          kafka_client.load_metadata_for_topics()
  \<close>
\<close>

definition refresh_metadata ::
  "'w collaborators \<Rightarrow> 'w state \<Rightarrow> (error + unit) \<times> 'w state" where
  "refresh_metadata env s =
     (case call_load_metadata_for_topics env s of
        (Inl KafkaUnavailableError, s1) \<Rightarrow> call_load_metadata_for_topics env s1
      | (r, s1) \<Rightarrow> (r, s1))"

text \<open>
  \<^verbatim>\<open>
      result = {}
      for topic, partitions in six.iteritems(group_offsets):
          result[topic] = [
              ConsumerPartitionOffsets(
                  topic=topic,
                  partition=partition,
                  current=group_offsets[topic][partition],
                  highmark=watermarks[topic][partition].highmark,
                  lowmark=watermarks[topic][partition].lowmark,
              ) for partition in partitions
          ]
      return result
  \<close>
  \<open>partition_snapshots\<close> is the list comprehension over the keys of \<open>partitions\<close>,
  \<open>topic_snapshots\<close> the loop over the items of \<open>group_offsets\<close>.
\<close>

fun partition_snapshots ::
  "offsets \<Rightarrow> watermarks \<Rightarrow> string \<Rightarrow> int list \<Rightarrow> error + ConsumerPartitionOffsets list" where
  "partition_snapshots group_offsets watermarks topic [] = Inr []"
| "partition_snapshots group_offsets watermarks topic (partition' # rest) =
     bind_err (lookup group_offsets topic) (\<lambda>topic_offsets.
     bind_err (lookup topic_offsets partition') (\<lambda>cur.
     bind_err (lookup watermarks topic) (\<lambda>topic_marks.
     bind_err (lookup topic_marks partition') (\<lambda>high.
     bind_err (lookup watermarks topic) (\<lambda>topic_marks'.
     bind_err (lookup topic_marks' partition') (\<lambda>low.
     bind_err (partition_snapshots group_offsets watermarks topic rest) (\<lambda>snapshots.
     Inr (\<lparr>cpo_topic = topic, cpo_partition = partition', cpo_current = cur,
           cpo_highmark = po_highmark high, cpo_lowmark = po_lowmark low\<rparr>
          # snapshots))))))))"

fun topic_snapshots ::
  "offsets \<Rightarrow> watermarks \<Rightarrow> (string \<times> (int, int) dict) list
     \<Rightarrow> (string, ConsumerPartitionOffsets list) dict
     \<Rightarrow> error + (string, ConsumerPartitionOffsets list) dict" where
  "topic_snapshots group_offsets watermarks [] result = Inr result"
| "topic_snapshots group_offsets watermarks ((topic, partitions) # rest) result =
     bind_err (partition_snapshots group_offsets watermarks topic (map fst partitions))
       (\<lambda>snapshots.
          topic_snapshots group_offsets watermarks rest
            (AList.update topic snapshots result))"

text \<open>
  \<^verbatim>\<open>
  def get_consumer_offsets_metadata(
      kafka_client, group, topics, raise_on_error=True, offset_storage='kafka',
  ):
      try:
          kafka_client.load_metadata_for_topics()
      except KafkaUnavailableError:
          kafka_client.load_metadata_for_topics()
      group_offsets = get_current_offsets(
          kafka_client, group, topics, raise_on_error, offset_storage
      )
      watermarks = get_topics_watermarks(
          kafka_client, topics, raise_on_error
      )
      result = {}
      ...
      return result
  \<close>
\<close>

definition get_consumer_offsets_metadata ::
  "'w collaborators \<Rightarrow> 'w state \<Rightarrow> string \<Rightarrow> string list \<Rightarrow> bool \<Rightarrow> string
     \<Rightarrow> (error + (string, ConsumerPartitionOffsets list) dict) \<times> 'w state" where
  "get_consumer_offsets_metadata env s group' topics raise_on_error offset_storage =
     (case refresh_metadata env s of
        (Inl e, s1) \<Rightarrow> (Inl e, s1)
      | (Inr u, s1) \<Rightarrow>
          (case get_current_offsets env s1 group' topics raise_on_error offset_storage of
             (Inl e, s2) \<Rightarrow> (Inl e, s2)
           | (Inr group_offsets, s2) \<Rightarrow>
               (case call_get_topics_watermarks env s2 topics raise_on_error of
                  (Inl e, s3) \<Rightarrow> (Inl e, s3)
                | (Inr watermarks, s3) \<Rightarrow>
                    (topic_snapshots group_offsets watermarks group_offsets [], s3))))"

text \<open>
  What the claim on the assembler speaks of: the snapshot that an item (partition,
  current offset) of a topic's reconciled offsets has by the watermark result, if the
  watermark result has an entry for that topic and partition.
\<close>

definition snapshot_of ::
  "watermarks \<Rightarrow> string \<Rightarrow> int \<times> int \<Rightarrow> ConsumerPartitionOffsets option" where
  "snapshot_of watermarks topic item =
     (case map_of watermarks topic of
        None \<Rightarrow> None
      | Some topic_marks \<Rightarrow>
          (case map_of topic_marks (fst item) of
             None \<Rightarrow> None
           | Some marks \<Rightarrow>
               Some \<lparr>cpo_topic = topic, cpo_partition = fst item, cpo_current = snd item,
                     cpo_highmark = po_highmark marks, cpo_lowmark = po_lowmark marks\<rparr>))"

text \<open>
  An item (topic, partitions) of the reconciled offsets is covered when it is what
  the offsets map the topic to, has every partition once, and every partition of it
  has a snapshot.
\<close>

definition covered :: "offsets \<Rightarrow> watermarks \<Rightarrow> string \<times> (int, int) dict \<Rightarrow> bool" where
  "covered go wm entry \<longleftrightarrow>
     map_of go (fst entry) = Some (snd entry) \<and> wf_dict (snd entry) \<and>
     (\<forall>item \<in> set (snd entry). snapshot_of wm (fst entry) item \<noteq> None)"

section \<open>Replica health evaluator and host list formatter\<close>

text \<open>
  Both functions live in \<open>kafka_utils/kafka_check/commands/under_replicated.py\<close>,
  of which only the tests (\<open>tests/kafka_check/test_under_replicated.py\<close>) are at
  hand. The tests give the shape of the inputs: the metadata batch is a dictionary
  from topic to a dictionary from partition to \<open>PartitionMetadata\<close>, the broker
  list a dictionary from broker id to a host and a port.
\<close>

record PartitionMetadata =
  pm_topic :: string
  pm_partition :: int
  pm_leader :: int
  replicas :: "int list"
  isr :: "int list"
  pm_error :: int

type_synonym metadata_batch = "(string, (int, PartitionMetadata) dict) dict"

type_synonym under_replicated = "(int, (string \<times> int) list) dict"

text \<open>
  Modelled from the spec: the body of \<open>_process_topic_partition_metadata\<close> for one
  (topic, partition) entry that is below the threshold, "for every broker id in
  replicas that is not in isr, append (topic, partition) to that broker's list in
  the result".
\<close>

fun flag_replicas ::
  "string \<Rightarrow> int \<Rightarrow> int list \<Rightarrow> int list \<Rightarrow> under_replicated \<Rightarrow> under_replicated" where
  "flag_replicas topic partition' in_sync [] result = result"
| "flag_replicas topic partition' in_sync (broker_id # rest) result =
     flag_replicas topic partition' in_sync rest
       (if broker_id \<notin> set in_sync then
          AList.update broker_id (dict_get result broker_id [] @ [(topic, partition')]) result
        else result)"

text \<open>
  Modelled from the spec: the loop of \<open>_process_topic_partition_metadata\<close> over the
  partitions of one topic, "if |isr| < minReplicationFactor, then ...; if |isr| \<ge>
  minReplicationFactor, the partition contributes nothing". The spec has isr as a
  set, so \<open>|isr|\<close> is the number of distinct broker ids in it.
\<close>

fun process_partitions ::
  "string \<Rightarrow> (int \<times> PartitionMetadata) list \<Rightarrow> int \<Rightarrow> under_replicated \<Rightarrow> under_replicated" where
  "process_partitions topic [] min_replication_factor result = result"
| "process_partitions topic ((partition', metadata) # rest) min_replication_factor result =
     process_partitions topic rest min_replication_factor
       (if int (card (set (isr metadata))) < min_replication_factor then
          flag_replicas topic partition' (isr metadata) (replicas metadata) result
        else result)"

text \<open>
  Modelled from the spec: the loop of \<open>_process_topic_partition_metadata\<close> over the
  topics, "for every (topic, partition) entry".
\<close>

fun process_topics ::
  "(string \<times> (int, PartitionMetadata) dict) list \<Rightarrow> int \<Rightarrow> under_replicated
     \<Rightarrow> under_replicated" where
  "process_topics [] min_replication_factor result = result"
| "process_topics ((topic, partitions) # rest) min_replication_factor result =
     process_topics rest min_replication_factor
       (process_partitions topic partitions min_replication_factor result)"

text \<open>
  Modelled from the spec: \<open>_process_topic_partition_metadata\<close>, which is not among
  the sources, "processTopicPartitionMetadata(metadataByTopicPartition,
  minReplicationFactor) \<rightarrow> mapping from broker id to an unordered list of (topic,
  partition) pairs", starting from the empty mapping.
\<close>

definition process_topic_partition_metadata :: "metadata_batch \<Rightarrow> int \<Rightarrow> under_replicated" where
  "process_topic_partition_metadata topic_partitions_metadata min_replication_factor =
     process_topics topic_partitions_metadata min_replication_factor []"

text \<open>
  Python's \<open>str\<close> of an integer, for the port, and \<open>sep.join\<close>.
\<close>

definition digit_char :: "nat \<Rightarrow> char" where
  "digit_char n = ''0123456789'' ! n"

function str_nat :: "nat \<Rightarrow> string" where
  "str_nat n = (if n < 10 then [digit_char n] else str_nat (n div 10) @ [digit_char (n mod 10)])"
  by pat_completeness auto
termination
  by (relation "measure id") auto

declare str_nat.simps [simp del]

definition str_int :: "int \<Rightarrow> string" where
  "str_int i = (if i < 0 then CHR ''-'' # str_nat (nat (- i)) else str_nat (nat i))"

fun join :: "string \<Rightarrow> string list \<Rightarrow> string" where
  "join sep [] = []"
| "join sep [x] = x"
| "join sep (x # y # ys) = x @ sep @ join sep (y # ys)"

record broker_info =
  host :: string
  port :: int

text \<open>
  Modelled from the spec: how \<open>_prepare_host_list\<close> renders one broker, "brokers
  rendered as "host:port"".
\<close>

definition render_broker :: "broker_info \<Rightarrow> string" where
  "render_broker broker = host broker @ '':'' @ str_int (port broker)"

text \<open>
  Modelled from the spec: \<open>_prepare_host_list\<close>, which is not among the sources,
  "prepareHostList(brokersById) \<rightarrow> single string, brokers rendered as "host:port"
  joined by , with no surrounding whitespace and exactly one separator between
  entries, no trailing separator". The spec leaves the order of the brokers open;
  the model takes them in the iteration order of the dictionary.
\<close>

definition prepare_host_list :: "(int, broker_info) dict \<Rightarrow> string" where
  "prepare_host_list broker_list = join '','' (map (\<lambda>item. render_broker (snd item)) broker_list)"

subsection \<open>What the claims about these two functions speak of\<close>

text \<open>
  The (topic, partition) pairs of a batch whose entry is below the threshold and has
  the broker among its replicas but not in its isr, in iteration order.
\<close>

definition below_threshold :: "int \<Rightarrow> int \<Rightarrow> PartitionMetadata \<Rightarrow> bool" where
  "below_threshold min_replication_factor b m =
     (int (card (set (isr m))) < min_replication_factor \<and>
      b \<in> set (replicas m) \<and> b \<notin> set (isr m))"

definition flagged_pairs :: "metadata_batch \<Rightarrow> int \<Rightarrow> int \<Rightarrow> (string \<times> int) list" where
  "flagged_pairs batch min_replication_factor b =
     concat (map (\<lambda>entry. map (\<lambda>item. (fst entry, fst item))
                    (filter (\<lambda>item. below_threshold min_replication_factor b (snd item))
                       (snd entry)))
               batch)"

text \<open>No broker of a result is mapped to the empty list.\<close>

definition no_empty :: "under_replicated \<Rightarrow> bool" where
  "no_empty result \<longleftrightarrow> (\<forall>b pairs. map_of result b = Some pairs \<longrightarrow> pairs \<noteq> [])"

text \<open>Python's \<open>s.split(c)\<close> for a one-character separator.\<close>

fun split_on :: "char \<Rightarrow> string \<Rightarrow> string list" where
  "split_on c [] = [[]]"
| "split_on c (x # xs) =
     (if x = c then [] # split_on c xs
      else (case split_on c xs of [] \<Rightarrow> [[x]] | w # ws \<Rightarrow> (x # w) # ws))"

text \<open>Two batches and a broker list of the tests.\<close>

definition METADATA_RESPONSE :: metadata_batch where
  "METADATA_RESPONSE =
     [(''topic0'',
        [(0, \<lparr>pm_topic = ''topic0'', pm_partition = 0, pm_leader = 13,
               replicas = [13, 100], isr = [13, 100], pm_error = 0\<rparr>),
         (1, \<lparr>pm_topic = ''topic0'', pm_partition = 1, pm_leader = 100,
               replicas = [13, 100], isr = [13, 100], pm_error = 0\<rparr>)]),
      (''topic1'',
        [(0, \<lparr>pm_topic = ''topic1'', pm_partition = 0, pm_leader = 666,
               replicas = [300, 500, 666], isr = [500, 666], pm_error = 0\<rparr>),
         (1, \<lparr>pm_topic = ''topic1'', pm_partition = 1, pm_leader = 300,
               replicas = [300, 500, 666], isr = [300, 500, 666], pm_error = 0\<rparr>)])]"

definition METADATA_RESPONSE_FEW :: metadata_batch where
  "METADATA_RESPONSE_FEW =
     [(''topic0'',
        [(0, \<lparr>pm_topic = ''topic0'', pm_partition = 0, pm_leader = 100,
               replicas = [13, 100], isr = [100], pm_error = 0\<rparr>),
         (1, \<lparr>pm_topic = ''topic0'', pm_partition = 1, pm_leader = 100,
               replicas = [13, 100], isr = [13, 100], pm_error = 0\<rparr>)]),
      (''topic1'',
        [(0, \<lparr>pm_topic = ''topic1'', pm_partition = 0, pm_leader = 666,
               replicas = [13, 500, 666], isr = [13, 500, 666], pm_error = 0\<rparr>),
         (1, \<lparr>pm_topic = ''topic1'', pm_partition = 1, pm_leader = 666,
               replicas = [13, 500, 666], isr = [666], pm_error = 0\<rparr>)])]"

definition BROKER_LIST_WITH_ONE :: "(int, broker_info) dict" where
  "BROKER_LIST_WITH_ONE = [(1000, \<lparr>host = ''hostname00'', port = 1234\<rparr>)]"

section \<open>An example cluster\<close>

text \<open>
  A client whose state counts the calls made through it. The first metadata load
  finds the cluster unavailable and every later one succeeds. The zookeeper-backed
  fetch gives \<open>{t: {0: 5}}\<close> during the first twenty calls and fails afterwards.
  The kafka-native fetch gives \<open>{t: {0: 7}}\<close> during the first five calls, finds
  no group coordinator during the next five and fails otherwise afterwards. The
  watermarks of partition 0 of \<open>t\<close> are 10 and 1.
\<close>

definition example_cluster :: "nat collaborators" where
  "example_cluster =
     \<lparr>load_metadata_for_topics =
        (\<lambda>w. (if w = 0 then Inl KafkaUnavailableError else Inr (), Suc w)),
      get_current_consumer_offsets =
        (\<lambda>w group' topics raise_on_error offset_storage.
           (if offset_storage = ''zookeeper'' then
              (if w < 20 then Inr [(''t'', [(0, 5)])] else Inl (OtherError ''zookeeper down''))
            else if w < 5 then Inr [(''t'', [(0, 7)])]
            else if w < 10 then Inl GroupCoordinatorNotAvailableError
            else Inl (OtherError ''broker down''),
            Suc w)),
      get_topics_watermarks =
        (\<lambda>w topics raise_on_error.
           (Inr [(''t'', [(0, \<lparr>po_highmark = 10, po_lowmark = 1\<rparr>)])], Suc w))\<rparr>"

definition client_after :: "nat \<Rightarrow> nat state" where
  "client_after n = \<lparr>kafka_client = n, calls = []\<rparr>"

section \<open>Facts about the merge primitives\<close>

lemma offsets_for_wf:
  "wf_dict d \<Longrightarrow> offsets_for p d = (case map_of d p of None \<Rightarrow> [] | Some v \<Rightarrow> [v])"
proof (induction d)
  case Nil
  show ?case by (simp add: offsets_for_def)
next
  case (Cons a d)
  obtain k v where a: "a = (k, v)" by (cases a)
  from Cons.prems have wf: "wf_dict d" and k: "k \<notin> fst ` set d"
    by (simp_all add: wf_dict_def a)
  from k have none: "map_of d k = None"
    by (simp add: map_of_eq_None_iff)
  have tl: "offsets_for p ((k, v) # d) = (if k = p then v # offsets_for p d else offsets_for p d)"
    by (simp add: offsets_for_def)
  show ?case
    using Cons.IH [OF wf] none by (auto simp: tl a split: option.splits)
qed

lemma set_offsets_for: "set (offsets_for p d) = {v. (p, v) \<in> set d}"
  by (force simp: offsets_for_def)

lemma set_seen_offsets:
  "set (seen_offsets sources p) = {v. \<exists>d \<in> set sources. (p, v) \<in> set d}"
  by (auto simp: seen_offsets_def set_offsets_for)

lemma fold_max_Max: "fold max xs (a::int) = Max (insert a (set xs))"
proof -
  have "fold max xs a = Max (set (a # xs))"
    by (simp only: Max.set_eq_fold)
  then show ?thesis by simp
qed

lemma merge_items_lookup:
  "map_of (merge_items items out) p =
     (if map_of out p = None \<and> offsets_for p items = [] then None
      else Some (fold max (offsets_for p items) (dict_get out p 0)))"
proof (induction items arbitrary: out)
  case Nil
  show ?case by (simp add: offsets_for_def dict_get_def split: option.splits)
next
  case (Cons a items)
  obtain k v where a: "a = (k, v)" by (cases a)
  show ?case
    by (simp add: a Cons.IH update_conv' offsets_for_def dict_get_def Let_def
          max.commute split: option.splits)
qed

lemma merge_sources_lookup:
  "map_of (merge_sources sources out) p =
     (if map_of out p = None \<and> seen_offsets sources p = [] then None
      else Some (fold max (seen_offsets sources p) (dict_get out p 0)))"
proof (induction sources arbitrary: out)
  case Nil
  show ?case by (simp add: seen_offsets_def dict_get_def split: option.splits)
next
  case (Cons d sources)
  show ?case
    by (simp add: Cons.IH merge_items_lookup seen_offsets_def dict_get_def)
qed

lemma merge_partition_offsets_lookup:
  "map_of (merge_partition_offsets sources) p =
     (if seen_offsets sources p = [] then None
      else Some (max 0 (Max (set (seen_offsets sources p)))))"
proof (cases "seen_offsets sources p = []")
  case True
  then show ?thesis
    by (simp add: merge_partition_offsets_def merge_sources_lookup)
next
  case False
  then have ne: "set (seen_offsets sources p) \<noteq> {}" by simp
  have "Max (insert 0 (set (seen_offsets sources p))) =
        max 0 (Max (set (seen_offsets sources p)))"
    using ne by simp
  with False show ?thesis
    by (simp add: merge_partition_offsets_def merge_sources_lookup fold_max_Max
          dict_get_def)
qed

lemma wf_merge_items: "wf_dict out \<Longrightarrow> wf_dict (merge_items items out)"
proof (induction items arbitrary: out)
  case Nil
  then show ?case by simp
next
  case (Cons a items)
  obtain k v where a: "a = (k, v)" by (cases a)
  from Cons.prems have "wf_dict (AList.update k (max (dict_get out k 0) v) out)"
    by (simp add: wf_dict_def distinct_update)
  then show ?case
    by (simp add: a Let_def Cons.IH)
qed

lemma wf_merge_sources: "wf_dict out \<Longrightarrow> wf_dict (merge_sources sources out)"
  by (induction sources arbitrary: out) (simp_all add: wf_merge_items)

lemma wf_dict_Nil: "wf_dict []"
  by (simp add: wf_dict_def)

lemma wf_merge_partition_offsets: "wf_dict (merge_partition_offsets sources)"
  by (simp add: merge_partition_offsets_def wf_merge_sources wf_dict_Nil)

lemma merge_partition_offsets_Nil: "merge_partition_offsets [] = []"
  by (simp add: merge_partition_offsets_def)

lemma merge_partition_offsets_lookup_Max:
  "map_of (merge_partition_offsets sources) p =
     (if seen_offsets sources p = [] then None
      else Some (Max (insert 0 (set (seen_offsets sources p)))))"
  by (simp add: merge_partition_offsets_lookup)

lemma merge_partition_offsets_same_set:
  assumes eq: "set sources = set sources'"
  shows "map_of (merge_partition_offsets sources) = map_of (merge_partition_offsets sources')"
proof
  fix p
  have "set (seen_offsets sources p) = set (seen_offsets sources' p)"
    by (simp add: set_seen_offsets eq)
  moreover from this have "seen_offsets sources p = [] \<longleftrightarrow> seen_offsets sources' p = []"
    by (metis set_empty)
  ultimately show "map_of (merge_partition_offsets sources) p =
      map_of (merge_partition_offsets sources') p"
    by (simp add: merge_partition_offsets_lookup)
qed

lemma merge_partition_offsets_item_nonneg:
  assumes "(p, v) \<in> set (merge_partition_offsets sources)"
  shows "0 \<le> v"
proof -
  from assms wf_merge_partition_offsets [of sources]
  have "map_of (merge_partition_offsets sources) p = Some v"
    by (simp add: wf_dict_def)
  then show ?thesis
    by (simp add: merge_partition_offsets_lookup split: if_splits)
qed

lemma offsets_for_merge:
  "set (offsets_for p (merge_partition_offsets sources)) =
     (if seen_offsets sources p = [] then {}
      else {Max (insert 0 (set (seen_offsets sources p)))})"
  by (simp add: offsets_for_wf [OF wf_merge_partition_offsets] merge_partition_offsets_lookup)

lemma offsets_for_merge_Nil:
  "offsets_for p (merge_partition_offsets sources) = [] \<longleftrightarrow> seen_offsets sources p = []"
  by (simp add: offsets_for_wf [OF wf_merge_partition_offsets] merge_partition_offsets_lookup)

lemma seen_offsets_append:
  "seen_offsets (xs @ ys) p = seen_offsets xs p @ seen_offsets ys p"
  by (simp add: seen_offsets_def)

lemma seen_offsets_Cons:
  "seen_offsets (d # ys) p = offsets_for p d @ seen_offsets ys p"
  by (simp add: seen_offsets_def)

lemma Max0_Un:
  assumes fin: "finite X" "finite Y"
  shows "Max (insert (0::int) (X \<union> Y)) = max (Max (insert 0 X)) (Max (insert 0 Y))"
proof -
  have "insert (0::int) (X \<union> Y) = insert 0 X \<union> insert 0 Y" by auto
  then show ?thesis
    using fin
    by (simp only: Max_Un [of "insert 0 X" "insert 0 Y"] finite_insert insert_not_empty
          not_False_eq_True)
qed

lemma Max0_idem:
  assumes "finite Y"
  shows "Max (insert (0::int) {Max (insert 0 Y)}) = Max (insert 0 Y)"
proof -
  from assms have "0 \<le> Max (insert (0::int) Y)" by simp
  then show ?thesis by (simp add: max_def)
qed

text \<open>A source may be replaced by the sources it is the merge of.\<close>

lemma merge_partition_offsets_flatten:
  "map_of (merge_partition_offsets (xs @ merge_partition_offsets ys # zs)) p =
   map_of (merge_partition_offsets (xs @ ys @ zs)) p"
proof -
  let ?X = "set (seen_offsets xs p)" and ?Y = "set (seen_offsets ys p)"
  let ?Z = "set (seen_offsets zs p)"
  let ?M = "set (offsets_for p (merge_partition_offsets ys))"
  have fin: "finite ?X" "finite ?Y" "finite ?Z" "finite ?M" by simp_all
  have M: "Max (insert 0 ?M) = Max (insert 0 ?Y)"
  proof (cases "seen_offsets ys p = []")
    case True
    then show ?thesis by (simp add: offsets_for_merge)
  next
    case False
    then show ?thesis
      by (simp only: offsets_for_merge if_False Max0_idem [OF fin(2)])
  qed
  have "Max (insert 0 (?X \<union> (?M \<union> ?Z))) = Max (insert 0 (?X \<union> (?Y \<union> ?Z)))"
    using fin M by (simp only: Max0_Un finite_Un simp_thms)
  moreover have "seen_offsets (xs @ merge_partition_offsets ys # zs) p = [] \<longleftrightarrow>
        seen_offsets (xs @ ys @ zs) p = []"
    by (simp add: seen_offsets_append seen_offsets_Cons offsets_for_merge_Nil)
  ultimately show ?thesis
    by (simp add: merge_partition_offsets_lookup_Max seen_offsets_append seen_offsets_Cons)
qed

lemma merge_topics_lookup:
  "map_of (merge_topics topics responses acc) t =
     (if t \<in> set topics
      then Some (merge_partition_offsets
                   (List.map_filter (\<lambda>response. map_of response t) responses))
      else map_of acc t)"
  by (induction topics arbitrary: acc) (simp_all add: Let_def update_conv')

lemma merge_offsets_metadata_lookup:
  "map_of (merge_offsets_metadata topics responses) t =
     (if t \<in> set topics
      then Some (merge_partition_offsets
                   (List.map_filter (\<lambda>response. map_of response t) responses))
      else None)"
  by (simp add: merge_offsets_metadata_def merge_topics_lookup)

lemma wf_merge_topics: "wf_dict acc \<Longrightarrow> wf_dict (merge_topics topics responses acc)"
proof (induction topics arbitrary: acc)
  case Nil
  then show ?case by simp
next
  case (Cons t topics)
  from Cons.prems have "wf_dict (AList.update t v acc)" for v
    by (simp add: wf_dict_def distinct_update)
  then show ?case by (simp add: Let_def Cons.IH)
qed

lemma wf_merge_offsets_metadata: "wf_dict (merge_offsets_metadata topics responses)"
  by (simp add: merge_offsets_metadata_def wf_merge_topics wf_dict_Nil)

lemma map_filter_absent:
  "\<forall>response \<in> set responses. map_of response t = None \<Longrightarrow>
   List.map_filter (\<lambda>response. map_of response t) responses = []"
  by (induction responses) (simp_all add: List.map_filter_simps)

lemma merge_offsets_metadata_items:
  assumes "(t, d) \<in> set (merge_offsets_metadata topics responses)"
  shows "d = merge_partition_offsets
               (List.map_filter (\<lambda>response. map_of response t) responses)"
proof -
  from assms wf_merge_offsets_metadata [of topics responses]
  have "map_of (merge_offsets_metadata topics responses) t = Some d"
    by (simp add: wf_dict_def)
  then show ?thesis
    by (simp add: merge_offsets_metadata_lookup split: if_splits)
qed

section \<open>The claims on the merge primitives\<close>

text \<open>
  Claim C2, as stated, at one source that maps partition 0 to the offset -5: the
  merged map gives partition 0 the offset 0, while the maximum offset seen for it
  is -5.
\<close>

theorem merge_partition_offsets_negative_counterexample:
  "map_of (merge_partition_offsets [[(0, - 5)]]) 0 = Some 0 \<and>
   max_seen [[(0, - 5)]] 0 = Some (- 5) \<and>
   map_of (merge_partition_offsets [[(0, - 5)]]) 0 \<noteq> max_seen [[(0, - 5)]] 0"
  by (simp add: merge_partition_offsets_def dict_get_def max_seen_def seen_offsets_def
        offsets_for_def)

text \<open>
  Claim C2, amended: for every sequence of partition-to-offset maps and every
  partition, \<open>merge_partition_offsets\<close> has no entry for a partition that no source
  has, and gives a partition that some source has the larger of 0 and the maximum
  offset seen for it across the sources. That is the maximum offset seen whenever
  the offsets seen for the partition are non-negative. For dictionaries the offsets
  seen for a partition are those that some source maps it to.
\<close>

theorem merge_partition_offsets_max_seen:
  "map_of (merge_partition_offsets sources) p =
     (case max_seen sources p of None \<Rightarrow> None | Some m \<Rightarrow> Some (max 0 m)) \<and>
   ((\<forall>v \<in> set (seen_offsets sources p). 0 \<le> v) \<longrightarrow>
      map_of (merge_partition_offsets sources) p = max_seen sources p) \<and>
   ((\<forall>d \<in> set sources. wf_dict d) \<longrightarrow>
      set (seen_offsets sources p) = {v. \<exists>d \<in> set sources. map_of d p = Some v})"
proof (intro conjI impI)
  show eq: "map_of (merge_partition_offsets sources) p =
     (case max_seen sources p of None \<Rightarrow> None | Some m \<Rightarrow> Some (max 0 m))"
    by (simp add: merge_partition_offsets_lookup max_seen_def)
  show "map_of (merge_partition_offsets sources) p = max_seen sources p"
    if nonneg: "\<forall>v \<in> set (seen_offsets sources p). 0 \<le> v"
  proof (cases "seen_offsets sources p = []")
    case True
    then show ?thesis by (simp add: eq max_seen_def)
  next
    case False
    then have "Max (set (seen_offsets sources p)) \<in> set (seen_offsets sources p)"
      by (intro Max_in) simp_all
    with nonneg have "0 \<le> Max (set (seen_offsets sources p))" by blast
    with False show ?thesis by (simp add: eq max_seen_def max_def)
  qed
  show "set (seen_offsets sources p) = {v. \<exists>d \<in> set sources. map_of d p = Some v}"
    if wf: "\<forall>d \<in> set sources. wf_dict d"
  proof -
    have "(p, v) \<in> set d \<longleftrightarrow> map_of d p = Some v" if "d \<in> set sources" for d v
      using wf that by (simp add: wf_dict_def)
    then show ?thesis by (auto simp: set_seen_offsets)
  qed
qed

text \<open>
  The amended claim C2 at the sources \<open>{0: 5, 1: 2}\<close> and \<open>{0: 7}\<close>: partition
  0 is seen with 5 and 7 and merged to 7.
\<close>

theorem merge_partition_offsets_max_seen_witness:
  "seen_offsets [[(0, 5), (1, 2)], [(0, 7)]] 0 = [5, 7] \<and>
   wf_dict [(0::int, 5::int), (1, 2)] \<and> wf_dict [(0::int, 7::int)] \<and>
   map_of (merge_partition_offsets [[(0, 5), (1, 2)], [(0, 7)]]) 0 = Some 7 \<and>
   {v. \<exists>d \<in> set [[(0, 5), (1, 2)], [(0, 7)]]. map_of d 0 = Some v} = {5, 7::int}"
proof -
  let ?S = "[[(0, 5), (1, 2)], [(0::int, 7::int)]]"
  have seen: "seen_offsets ?S 0 = [5, 7]"
    by (simp add: seen_offsets_def offsets_for_def)
  have h1: "\<forall>v \<in> set (seen_offsets ?S 0). 0 \<le> v"
    by (simp add: seen)
  have h2: "\<forall>d \<in> set ?S. wf_dict d"
    by (simp add: wf_dict_def)
  have m: "max_seen ?S 0 = Some 7"
    by (simp add: max_seen_def seen)
  have wf: "wf_dict [(0::int, 5::int), (1, 2)]" "wf_dict [(0::int, 7::int)]"
    by (simp_all add: wf_dict_def)
  from merge_partition_offsets_max_seen [of ?S 0] h1 h2 m
  have "map_of (merge_partition_offsets ?S) 0 = Some 7"
    and "set (seen_offsets ?S 0) = {v. \<exists>d \<in> set ?S. map_of d 0 = Some v}"
    by simp_all
  with seen wf show ?thesis by simp
qed

text \<open>
  Claim C8: \<open>merge_partition_offsets\<close> is commutative (sources that are a
  permutation of one another merge to the same map), associative (merging the merge
  of two sources with a third is merging the first with the merge of the other two)
  and idempotent under duplicate sources (a source that is repeated anywhere in the
  sequence can be left out). "The same map" is Python's equality of dictionaries.
\<close>

theorem merge_partition_offsets_algebra:
  "(mset sources = mset sources' \<longrightarrow>
      map_of (merge_partition_offsets sources) = map_of (merge_partition_offsets sources')) \<and>
   map_of (merge_partition_offsets [merge_partition_offsets [a, b], c]) =
     map_of (merge_partition_offsets [a, merge_partition_offsets [b, c]]) \<and>
   (d \<in> set (xs @ ys) \<longrightarrow>
      map_of (merge_partition_offsets (xs @ d # ys)) =
        map_of (merge_partition_offsets (xs @ ys)))"
proof (intro conjI impI)
  show "map_of (merge_partition_offsets sources) = map_of (merge_partition_offsets sources')"
    if "mset sources = mset sources'"
    using that by (intro merge_partition_offsets_same_set) (rule mset_eq_setD)
  show "map_of (merge_partition_offsets [merge_partition_offsets [a, b], c]) =
     map_of (merge_partition_offsets [a, merge_partition_offsets [b, c]])"
  proof
    fix p
    have "map_of (merge_partition_offsets [merge_partition_offsets [a, b], c]) p =
          map_of (merge_partition_offsets [a, b, c]) p"
      using merge_partition_offsets_flatten [of "[]" "[a, b]" "[c]" p] by simp
    moreover have "map_of (merge_partition_offsets [a, merge_partition_offsets [b, c]]) p =
          map_of (merge_partition_offsets [a, b, c]) p"
      using merge_partition_offsets_flatten [of "[a]" "[b, c]" "[]" p] by simp
    ultimately show "map_of (merge_partition_offsets [merge_partition_offsets [a, b], c]) p =
        map_of (merge_partition_offsets [a, merge_partition_offsets [b, c]]) p"
      by simp
  qed
  show "map_of (merge_partition_offsets (xs @ d # ys)) =
        map_of (merge_partition_offsets (xs @ ys))"
    if "d \<in> set (xs @ ys)"
    using that by (intro merge_partition_offsets_same_set) auto
qed

text \<open>
  Claim C8 at the sources \<open>{0: 5}\<close> and \<open>{0: 7, 1: 1}\<close>, in both orders and with
  the first one repeated.
\<close>

theorem merge_partition_offsets_algebra_witness:
  "mset [[(0, 5)], [(0, 7), (1, 1)]] = mset [[(0, 7), (1, 1)], [(0::int, 5::int)]] \<and>
   map_of (merge_partition_offsets [[(0, 5)], [(0, 7), (1, 1)]]) =
     map_of (merge_partition_offsets [[(0, 7), (1, 1)], [(0, 5)]]) \<and>
   [(0::int, 5::int)] \<in> set ([[(0, 5)]] @ [[(0, 7), (1, 1)]]) \<and>
   map_of (merge_partition_offsets ([[(0, 5)]] @ [(0, 5)] # [[(0, 7), (1, 1)]])) =
     map_of (merge_partition_offsets ([[(0, 5)]] @ [[(0, 7), (1, 1)]])) \<and>
   merge_partition_offsets [[(0, 5)], [(0, 7), (1, 1)]] = [(0, 7), (1, 1)] \<and>
   merge_partition_offsets [[(0, 7), (1, 1)], [(0, 5)]] = [(0, 7), (1, 1)]"
proof -
  let ?a = "[(0::int, 5::int)]" and ?b = "[(0::int, 7::int), (1, 1)]"
  have h1: "mset [?a, ?b] = mset [?b, ?a]" by simp
  have h2: "?a \<in> set ([?a] @ [?b])" by simp
  have v1: "merge_partition_offsets [?a, ?b] = [(0, 7), (1, 1)]"
    by (simp add: merge_partition_offsets_def dict_get_def)
  have v2: "merge_partition_offsets [?b, ?a] = [(0, 7), (1, 1)]"
    by (simp add: merge_partition_offsets_def dict_get_def)
  from merge_partition_offsets_algebra [of "[?a, ?b]" "[?b, ?a]" ?a ?b ?a ?a "[?a]" "[?b]"]
    h1 h2 v1 v2
  show ?thesis by simp
qed

text \<open>
  Claim C6: a topic of the topic list that no source has is mapped by
  \<open>merge_offsets_metadata\<close> to the empty dictionary; its key is in the result.
\<close>

theorem merge_offsets_metadata_absent_topic:
  "topic \<in> set topics \<Longrightarrow>
   \<forall>response \<in> set offsets_responses. map_of response topic = None \<Longrightarrow>
   map_of (merge_offsets_metadata topics offsets_responses) topic = Some []"
  by (simp add: merge_offsets_metadata_lookup map_filter_absent merge_partition_offsets_Nil)

text \<open>
  Claim C6 at the topics \<open>t1\<close>, \<open>t2\<close> and the sources \<open>{t1: {0: 5}}\<close> and
  \<open>{}\<close>: \<open>t2\<close> is in no source and is mapped to \<open>{}\<close>.
\<close>

theorem merge_offsets_metadata_absent_topic_witness:
  "''t2'' \<in> set [''t1'', ''t2''] \<and>
   map_of [(''t1'', [(0::int, 5::int)])] ''t2'' = None \<and>
   map_of ([] :: offsets) ''t2'' = None \<and>
   map_of (merge_offsets_metadata [''t1'', ''t2''] [[(''t1'', [(0, 5)])], []]) ''t2'' = Some []"
proof -
  have h1: "''t2'' \<in> set [''t1'', ''t2'']" by simp
  have h2: "\<forall>response \<in> set [[(''t1'', [(0::int, 5::int)])], []]. map_of response ''t2'' = None"
    by simp
  from h1 h2 merge_offsets_metadata_absent_topic [OF h1 h2] show ?thesis by simp
qed

section \<open>Facts about the calls\<close>

lemma call_load_calls:
  "calls (snd (call_load_metadata_for_topics env s)) = calls s @ [LoadMetadataForTopics]"
  by (simp add: call_load_metadata_for_topics_def split: prod.splits)

lemma call_fetch_calls:
  "calls (snd (call_get_current_consumer_offsets env s g ts r m)) =
     calls s @ [GetCurrentConsumerOffsets g ts r m]"
  by (simp add: call_get_current_consumer_offsets_def split: prod.splits)

lemma call_fetch_fst:
  "fst (call_get_current_consumer_offsets env s g ts r m) =
     fst (get_current_consumer_offsets env (kafka_client s) g ts r m)"
  by (simp add: call_get_current_consumer_offsets_def split: prod.splits)

section \<open>The claims on the metadata refresh and the dispatch on the storage mode\<close>

text \<open>
  Claim C5: the metadata refresh loads the metadata at most twice. It loads it a
  second time exactly when the first load fails with \<open>KafkaUnavailableError\<close>, and
  then the outcome of the second load, a failure included, is the outcome of the
  refresh. Any other outcome of the first load, a failure included, is the outcome
  of the refresh, with no second load. A failure of the refresh is the failure of
  \<open>get_consumer_offsets_metadata\<close>, which makes no further call.
\<close>

theorem refresh_metadata_single_retry:
  "(fst (call_load_metadata_for_topics env s) = Inl KafkaUnavailableError \<longrightarrow>
      refresh_metadata env s =
        call_load_metadata_for_topics env (snd (call_load_metadata_for_topics env s)) \<and>
      calls (snd (refresh_metadata env s)) =
        calls s @ [LoadMetadataForTopics, LoadMetadataForTopics]) \<and>
   (fst (call_load_metadata_for_topics env s) \<noteq> Inl KafkaUnavailableError \<longrightarrow>
      refresh_metadata env s = call_load_metadata_for_topics env s \<and>
      calls (snd (refresh_metadata env s)) = calls s @ [LoadMetadataForTopics]) \<and>
   (fst (refresh_metadata env s) = Inl e \<longrightarrow>
      get_consumer_offsets_metadata env s group' topics raise_on_error offset_storage =
        (Inl e, snd (refresh_metadata env s)))"
proof (intro conjI impI)
  assume first: "fst (call_load_metadata_for_topics env s) = Inl KafkaUnavailableError"
  then show retry: "refresh_metadata env s =
      call_load_metadata_for_topics env (snd (call_load_metadata_for_topics env s))"
    by (cases "call_load_metadata_for_topics env s") (simp add: refresh_metadata_def)
  show "calls (snd (refresh_metadata env s)) =
      calls s @ [LoadMetadataForTopics, LoadMetadataForTopics]"
    by (simp add: retry call_load_calls)
next
  assume first: "fst (call_load_metadata_for_topics env s) \<noteq> Inl KafkaUnavailableError"
  then show once: "refresh_metadata env s = call_load_metadata_for_topics env s"
    by (cases "call_load_metadata_for_topics env s")
      (auto simp: refresh_metadata_def split: sum.splits error.splits)
  show "calls (snd (refresh_metadata env s)) = calls s @ [LoadMetadataForTopics]"
    by (simp add: once call_load_calls)
next
  assume "fst (refresh_metadata env s) = Inl e"
  then show "get_consumer_offsets_metadata env s group' topics raise_on_error offset_storage =
        (Inl e, snd (refresh_metadata env s))"
    by (cases "refresh_metadata env s") (simp add: get_consumer_offsets_metadata_def)
qed

text \<open>
  Claim C5 on the example cluster: on a fresh client the first load fails, the second
  succeeds and two loads are made; on a client that has made one call the first load
  succeeds and is the only one.
\<close>

theorem refresh_metadata_single_retry_witness:
  "fst (call_load_metadata_for_topics example_cluster (client_after 0)) =
     Inl KafkaUnavailableError \<and>
   refresh_metadata example_cluster (client_after 0) =
     (Inr (), \<lparr>kafka_client = 2, calls = [LoadMetadataForTopics, LoadMetadataForTopics]\<rparr>) \<and>
   fst (call_load_metadata_for_topics example_cluster (client_after 1)) = Inr () \<and>
   refresh_metadata example_cluster (client_after 1) =
     (Inr (), \<lparr>kafka_client = 2, calls = [LoadMetadataForTopics]\<rparr>)"
proof -
  have first: "call_load_metadata_for_topics example_cluster (client_after 0) =
      (Inl KafkaUnavailableError, \<lparr>kafka_client = 1, calls = [LoadMetadataForTopics]\<rparr>)"
    by (simp add: call_load_metadata_for_topics_def example_cluster_def client_after_def)
  have second: "call_load_metadata_for_topics example_cluster
        \<lparr>kafka_client = 1, calls = [LoadMetadataForTopics]\<rparr> =
      (Inr (), \<lparr>kafka_client = 2, calls = [LoadMetadataForTopics, LoadMetadataForTopics]\<rparr>)"
    by (simp add: call_load_metadata_for_topics_def example_cluster_def)
  have later: "call_load_metadata_for_topics example_cluster (client_after 1) =
      (Inr (), \<lparr>kafka_client = 2, calls = [LoadMetadataForTopics]\<rparr>)"
    by (simp add: call_load_metadata_for_topics_def example_cluster_def client_after_def)
  from refresh_metadata_single_retry [of example_cluster "client_after 0"]
    refresh_metadata_single_retry [of example_cluster "client_after 1"]
    first second later
  show ?thesis by simp
qed

text \<open>
  Claim C4: for a storage mode other than \<open>zookeeper\<close>, \<open>kafka\<close> and \<open>dual\<close>,
  \<open>get_current_offsets\<close> fails with \<open>InvalidOffsetStorageError\<close> carrying the
  mode, and leaves the client and the list of calls as they were: no collaborator is
  called. For the modes \<open>zookeeper\<close> and \<open>kafka\<close> it is the one call of the
  single-backend fetch with the arguments it was given: its outcome is that of the
  fetch, a failure included, so it fails with \<open>InvalidOffsetStorageError\<close> only if
  the fetch itself does.
\<close>

theorem get_current_offsets_dispatch:
  "(offset_storage \<notin> {''zookeeper'', ''kafka'', ''dual''} \<longrightarrow>
      get_current_offsets env s group' topics raise_on_error offset_storage =
        (Inl (InvalidOffsetStorageError offset_storage), s)) \<and>
   (offset_storage \<in> {''zookeeper'', ''kafka''} \<longrightarrow>
      get_current_offsets env s group' topics raise_on_error offset_storage =
        call_get_current_consumer_offsets env s group' topics raise_on_error offset_storage \<and>
      fst (get_current_offsets env s group' topics raise_on_error offset_storage) =
        fst (get_current_consumer_offsets env (kafka_client s) group' topics raise_on_error
               offset_storage) \<and>
      calls (snd (get_current_offsets env s group' topics raise_on_error offset_storage)) =
        calls s @ [GetCurrentConsumerOffsets group' topics raise_on_error offset_storage] \<and>
      ((\<forall>v. fst (get_current_consumer_offsets env (kafka_client s) group' topics
                  raise_on_error offset_storage) \<noteq> Inl (InvalidOffsetStorageError v)) \<longrightarrow>
       (\<forall>v. fst (get_current_offsets env s group' topics raise_on_error offset_storage) \<noteq>
              Inl (InvalidOffsetStorageError v))))"
proof (intro conjI impI)
  assume "offset_storage \<notin> {''zookeeper'', ''kafka'', ''dual''}"
  then show "get_current_offsets env s group' topics raise_on_error offset_storage =
        (Inl (InvalidOffsetStorageError offset_storage), s)"
    by (simp add: get_current_offsets_def)
next
  assume single: "offset_storage \<in> {''zookeeper'', ''kafka''}"
  then show eq: "get_current_offsets env s group' topics raise_on_error offset_storage =
        call_get_current_consumer_offsets env s group' topics raise_on_error offset_storage"
    by (auto simp: get_current_offsets_def)
  show fst_eq: "fst (get_current_offsets env s group' topics raise_on_error offset_storage) =
        fst (get_current_consumer_offsets env (kafka_client s) group' topics raise_on_error
               offset_storage)"
    by (simp only: eq call_fetch_fst)
  show "calls (snd (get_current_offsets env s group' topics raise_on_error offset_storage)) =
        calls s @ [GetCurrentConsumerOffsets group' topics raise_on_error offset_storage]"
    by (simp only: eq call_fetch_calls)
  show "\<forall>v. fst (get_current_offsets env s group' topics raise_on_error offset_storage) \<noteq>
              Inl (InvalidOffsetStorageError v)"
    if "\<forall>v. fst (get_current_consumer_offsets env (kafka_client s) group' topics
                  raise_on_error offset_storage) \<noteq> Inl (InvalidOffsetStorageError v)"
    unfolding fst_eq by (rule that)
qed

text \<open>
  Claim C4 on the example cluster: the mode \<open>bogus\<close> is refused with no call made,
  the mode \<open>kafka\<close> makes the one fetch and returns what it gives.
\<close>

theorem get_current_offsets_dispatch_witness:
  "''bogus'' \<notin> {''zookeeper'', ''kafka'', ''dual''} \<and>
   get_current_offsets example_cluster (client_after 0) ''g'' [''t''] True ''bogus'' =
     (Inl (InvalidOffsetStorageError ''bogus''), client_after 0) \<and>
   ''kafka'' \<in> {''zookeeper'', ''kafka''} \<and>
   get_current_offsets example_cluster (client_after 0) ''g'' [''t''] True ''kafka'' =
     (Inr [(''t'', [(0, 7)])],
      \<lparr>kafka_client = 1, calls = [GetCurrentConsumerOffsets ''g'' [''t''] True ''kafka'']\<rparr>)"
proof -
  have h1: "''bogus'' \<notin> {''zookeeper'', ''kafka'', ''dual''}" by simp
  have h2: "''kafka'' \<in> {''zookeeper'', ''kafka''}" by simp
  have c: "call_get_current_consumer_offsets example_cluster (client_after 0) ''g'' [''t'']
        True ''kafka'' =
      (Inr [(''t'', [(0, 7)])],
       \<lparr>kafka_client = 1, calls = [GetCurrentConsumerOffsets ''g'' [''t''] True ''kafka'']\<rparr>)"
    by (simp add: call_get_current_consumer_offsets_def example_cluster_def client_after_def)
  from get_current_offsets_dispatch
         [of "''bogus''" example_cluster "client_after 0" "''g''" "[''t'']" True]
       get_current_offsets_dispatch
         [of "''kafka''" example_cluster "client_after 0" "''g''" "[''t'']" True]
       h1 h2 c
  show ?thesis by simp
qed

section \<open>Facts about the dual mode\<close>

lemma dual_unfold:
  "get_current_offsets env s group' topics raise_on_error ''dual'' =
   get_current_offsets_dual env s group' topics raise_on_error"
  by (simp add: get_current_offsets_def)

lemma dual_zk_fails:
  assumes "fst (zk_fetch env s group' topics) = Inl e"
  shows "get_current_offsets_dual env s group' topics raise_on_error =
           (Inl e, snd (zk_fetch env s group' topics))"
  using assms
  by (cases "zk_fetch env s group' topics") (simp add: get_current_offsets_dual_def)

lemma dual_zk_ok:
  assumes "fst (zk_fetch env s group' topics) = Inr zk_offsets"
  shows "get_current_offsets_dual env s group' topics raise_on_error =
           (case fst (kafka_fetch env s group' topics) of
              Inl e \<Rightarrow>
                (if e = GroupCoordinatorNotAvailableError
                 then Inr (merge_offsets_metadata topics [zk_offsets, []]) else Inl e)
            | Inr kafka_offsets \<Rightarrow>
                Inr (merge_offsets_metadata topics [zk_offsets, kafka_offsets]),
            snd (kafka_fetch env s group' topics))"
proof (cases "zk_fetch env s group' topics")
  case (Pair r s1)
  with assms have r: "r = Inr zk_offsets" by simp
  show ?thesis
    by (cases "call_get_current_consumer_offsets env s1 group' topics False ''kafka''")
      (simp add: get_current_offsets_dual_def Pair r split: sum.splits error.splits)
qed

lemma merge_two_sources_example:
  assumes "topic \<in> set topics"
    and "map_of zk topic = Some [(0, 5)]"
    and "map_of kf topic = Some [(0, 7)]"
  shows "map_of (merge_offsets_metadata topics [zk, kf]) topic = Some [(0, 7)]"
    and "map_of (merge_offsets_metadata topics [zk, []]) topic = Some [(0, 5)]"
  using assms
  by (simp_all add: merge_offsets_metadata_lookup List.map_filter_simps
        merge_partition_offsets_def dict_get_def)

lemma dual_result_is_merge:
  assumes "fst (get_current_offsets env s group' topics raise_on_error ''dual'') = Inr merged"
  shows "\<exists>zk kf. merged = merge_offsets_metadata topics [zk, kf]"
proof (cases "fst (zk_fetch env s group' topics)")
  case (Inl e)
  with assms show ?thesis
    by (simp add: dual_unfold dual_zk_fails)
next
  case (Inr zk)
  with assms show ?thesis
    by (auto simp: dual_unfold dual_zk_ok split: sum.splits if_splits)
qed

lemma example_zk_fetch:
  "n < 20 \<Longrightarrow> zk_fetch example_cluster (client_after n) ''g'' [''t''] =
     (Inr [(''t'', [(0, 5)])],
      \<lparr>kafka_client = Suc n,
        calls = [GetCurrentConsumerOffsets ''g'' [''t''] False ''zookeeper'']\<rparr>)"
  by (simp add: call_get_current_consumer_offsets_def example_cluster_def client_after_def)

lemma example_kafka_call:
  "call_get_current_consumer_offsets example_cluster \<lparr>kafka_client = n, calls = cs\<rparr>
     ''g'' [''t''] False ''kafka'' =
     (if n < 5 then Inr [(''t'', [(0, 7)])]
      else if n < 10 then Inl GroupCoordinatorNotAvailableError
      else Inl (OtherError ''broker down''),
      \<lparr>kafka_client = Suc n,
        calls = cs @ [GetCurrentConsumerOffsets ''g'' [''t''] False ''kafka'']\<rparr>)"
  by (simp add: call_get_current_consumer_offsets_def example_cluster_def)

section \<open>The claims on the dual mode\<close>

text \<open>
  Claim C1: in the mode \<open>dual\<close>, \<open>get_current_offsets\<close> first makes the
  zookeeper-backed fetch with \<open>raise_on_error = False\<close>. A failure of that fetch,
  of whatever kind, is the failure of the function, and no second fetch is made.
  Otherwise it makes the kafka-native fetch with \<open>raise_on_error = False\<close>, from the
  state the first fetch has left, and those two calls are all it makes. When the
  second fetch succeeds the result is \<open>merge_offsets_metadata\<close> of the two results
  over the topic list; when it fails with \<open>GroupCoordinatorNotAvailableError\<close> the
  result is the merge of the first result and the empty mapping; any other failure
  of it is the failure of the function. For a topic of the list at which the
  first result is \<open>{0: 5}\<close> and the second \<open>{0: 7}\<close>, the merge of both gives
  \<open>{0: 7}\<close> and the merge with the empty mapping gives \<open>{0: 5}\<close>.
\<close>

theorem get_current_offsets_dual_mode:
  "(fst (zk_fetch env s group' topics) = Inl e \<longrightarrow>
      get_current_offsets env s group' topics raise_on_error ''dual'' =
        (Inl e, snd (zk_fetch env s group' topics)) \<and>
      calls (snd (get_current_offsets env s group' topics raise_on_error ''dual'')) =
        calls s @ [GetCurrentConsumerOffsets group' topics False ''zookeeper'']) \<and>
   (fst (zk_fetch env s group' topics) = Inr zk_offsets \<longrightarrow>
      snd (get_current_offsets env s group' topics raise_on_error ''dual'') =
        snd (kafka_fetch env s group' topics) \<and>
      calls (snd (get_current_offsets env s group' topics raise_on_error ''dual'')) =
        calls s @ [GetCurrentConsumerOffsets group' topics False ''zookeeper'',
                   GetCurrentConsumerOffsets group' topics False ''kafka''] \<and>
      (fst (kafka_fetch env s group' topics) = Inr kafka_offsets \<longrightarrow>
         fst (get_current_offsets env s group' topics raise_on_error ''dual'') =
           Inr (merge_offsets_metadata topics [zk_offsets, kafka_offsets])) \<and>
      (fst (kafka_fetch env s group' topics) = Inl GroupCoordinatorNotAvailableError \<longrightarrow>
         fst (get_current_offsets env s group' topics raise_on_error ''dual'') =
           Inr (merge_offsets_metadata topics [zk_offsets, []])) \<and>
      (fst (kafka_fetch env s group' topics) = Inl e' \<and>
       e' \<noteq> GroupCoordinatorNotAvailableError \<longrightarrow>
         fst (get_current_offsets env s group' topics raise_on_error ''dual'') = Inl e')) \<and>
   (topic \<in> set topics \<and> map_of zk topic = Some [(0, 5)] \<and>
    map_of kf topic = Some [(0, 7)] \<longrightarrow>
      map_of (merge_offsets_metadata topics [zk, kf]) topic = Some [(0, 7)] \<and>
      map_of (merge_offsets_metadata topics [zk, []]) topic = Some [(0, 5)])"
proof (intro conjI impI)
  assume zk: "fst (zk_fetch env s group' topics) = Inl e"
  show "get_current_offsets env s group' topics raise_on_error ''dual'' =
        (Inl e, snd (zk_fetch env s group' topics))"
    by (simp only: dual_unfold dual_zk_fails [OF zk])
  show "calls (snd (get_current_offsets env s group' topics raise_on_error ''dual'')) =
        calls s @ [GetCurrentConsumerOffsets group' topics False ''zookeeper'']"
    by (simp only: dual_unfold dual_zk_fails [OF zk] snd_conv call_fetch_calls)
next
  assume zk: "fst (zk_fetch env s group' topics) = Inr zk_offsets"
  note eq = dual_zk_ok [OF zk, of raise_on_error]
  show "snd (get_current_offsets env s group' topics raise_on_error ''dual'') =
        snd (kafka_fetch env s group' topics)"
    by (simp only: dual_unfold eq snd_conv)
  show "calls (snd (get_current_offsets env s group' topics raise_on_error ''dual'')) =
        calls s @ [GetCurrentConsumerOffsets group' topics False ''zookeeper'',
                   GetCurrentConsumerOffsets group' topics False ''kafka'']"
    by (simp add: dual_unfold eq call_fetch_calls)
  show "fst (get_current_offsets env s group' topics raise_on_error ''dual'') =
           Inr (merge_offsets_metadata topics [zk_offsets, kafka_offsets])"
    if "fst (kafka_fetch env s group' topics) = Inr kafka_offsets"
    using that by (simp add: dual_unfold eq)
  show "fst (get_current_offsets env s group' topics raise_on_error ''dual'') =
           Inr (merge_offsets_metadata topics [zk_offsets, []])"
    if "fst (kafka_fetch env s group' topics) = Inl GroupCoordinatorNotAvailableError"
    using that by (simp add: dual_unfold eq)
  show "fst (get_current_offsets env s group' topics raise_on_error ''dual'') = Inl e'"
    if "fst (kafka_fetch env s group' topics) = Inl e' \<and>
        e' \<noteq> GroupCoordinatorNotAvailableError"
    using that by (simp add: dual_unfold eq)
next
  assume a: "topic \<in> set topics \<and> map_of zk topic = Some [(0, 5)] \<and>
    map_of kf topic = Some [(0, 7)]"
  then show "map_of (merge_offsets_metadata topics [zk, kf]) topic = Some [(0, 7)]"
    by (simp add: merge_two_sources_example(1))
  from a show "map_of (merge_offsets_metadata topics [zk, []]) topic = Some [(0, 5)]"
    by (simp add: merge_two_sources_example(2) [of topic topics zk kf])
qed

text \<open>
  Claim C1 on the example cluster, for the topic list \<open>[t]\<close>: on a fresh client
  both fetches succeed and partition 0 is merged to 7; after seven calls the
  kafka-native fetch finds no group coordinator and partition 0 is merged to 5;
  after twelve calls the kafka-native fetch fails otherwise and that failure is
  returned; after twenty calls the zookeeper-backed fetch fails, its failure is
  returned and it is the only call made.
\<close>

theorem get_current_offsets_dual_mode_witness:
  "get_current_offsets example_cluster (client_after 0) ''g'' [''t''] True ''dual'' =
     (Inr [(''t'', [(0, 7)])],
      \<lparr>kafka_client = 2,
        calls = [GetCurrentConsumerOffsets ''g'' [''t''] False ''zookeeper'',
                 GetCurrentConsumerOffsets ''g'' [''t''] False ''kafka'']\<rparr>) \<and>
   fst (get_current_offsets example_cluster (client_after 7) ''g'' [''t''] True ''dual'') =
     Inr [(''t'', [(0, 5)])] \<and>
   fst (get_current_offsets example_cluster (client_after 12) ''g'' [''t''] True ''dual'') =
     Inl (OtherError ''broker down'') \<and>
   get_current_offsets example_cluster (client_after 20) ''g'' [''t''] True ''dual'' =
     (Inl (OtherError ''zookeeper down''),
      \<lparr>kafka_client = 21,
        calls = [GetCurrentConsumerOffsets ''g'' [''t''] False ''zookeeper'']\<rparr>)"
proof -
  let ?zk = "[(''t'', [(0::int, 5::int)])]" and ?kf = "[(''t'', [(0::int, 7::int)])]"
  have zk0: "fst (zk_fetch example_cluster (client_after 0) ''g'' [''t'']) = Inr ?zk"
    and zk7: "fst (zk_fetch example_cluster (client_after 7) ''g'' [''t'']) = Inr ?zk"
    and zk12: "fst (zk_fetch example_cluster (client_after 12) ''g'' [''t'']) = Inr ?zk"
    by (simp_all add: example_zk_fetch)
  have zk20: "zk_fetch example_cluster (client_after 20) ''g'' [''t''] =
      (Inl (OtherError ''zookeeper down''),
       \<lparr>kafka_client = 21,
         calls = [GetCurrentConsumerOffsets ''g'' [''t''] False ''zookeeper'']\<rparr>)"
    by (simp add: call_get_current_consumer_offsets_def example_cluster_def client_after_def)
  have kf0: "kafka_fetch example_cluster (client_after 0) ''g'' [''t''] =
      (Inr ?kf,
       \<lparr>kafka_client = 2,
         calls = [GetCurrentConsumerOffsets ''g'' [''t''] False ''zookeeper'',
                  GetCurrentConsumerOffsets ''g'' [''t''] False ''kafka'']\<rparr>)"
    by (simp add: example_zk_fetch example_kafka_call)
  have kf7: "fst (kafka_fetch example_cluster (client_after 7) ''g'' [''t'']) =
      Inl GroupCoordinatorNotAvailableError"
    by (simp add: example_zk_fetch example_kafka_call)
  have kf12: "fst (kafka_fetch example_cluster (client_after 12) ''g'' [''t'']) =
      Inl (OtherError ''broker down'')"
    by (simp add: example_zk_fetch example_kafka_call)
  have m7: "merge_offsets_metadata [''t''] [?zk, ?kf] = ?kf"
    and m5: "merge_offsets_metadata [''t''] [?zk, []] = ?zk"
    by (simp_all add: merge_offsets_metadata_def merge_partition_offsets_def
          List.map_filter_simps dict_get_def)
  note dual = get_current_offsets_dual_mode [where group' = "''g''" and topics = "[''t'']"
      and raise_on_error = True and env = example_cluster]
  have r0: "get_current_offsets example_cluster (client_after 0) ''g'' [''t''] True ''dual'' =
      (Inr ?kf, snd (kafka_fetch example_cluster (client_after 0) ''g'' [''t'']))"
    using dual [of "client_after 0" _ ?zk ?kf] zk0 kf0 m7
    by (simp add: prod_eq_iff)
  have r7: "fst (get_current_offsets example_cluster (client_after 7) ''g'' [''t''] True
        ''dual'') = Inr ?zk"
    using dual [of "client_after 7" _ ?zk] zk7 kf7 m5 by simp
  have r12: "fst (get_current_offsets example_cluster (client_after 12) ''g'' [''t''] True
        ''dual'') = Inl (OtherError ''broker down'')"
    using dual [of "client_after 12" _ ?zk _ "OtherError ''broker down''"] zk12 kf12 by simp
  have r20: "get_current_offsets example_cluster (client_after 20) ''g'' [''t''] True ''dual'' =
      (Inl (OtherError ''zookeeper down''),
       snd (zk_fetch example_cluster (client_after 20) ''g'' [''t'']))"
    using dual [of "client_after 20" "OtherError ''zookeeper down''"] zk20 by simp
  from r0 r7 r12 r20 kf0 zk20 show ?thesis by simp
qed

text \<open>
  Claim C10: every offset in the map returned by \<open>merge_partition_offsets\<close> is
  at least 0, and so is every offset in the result of \<open>merge_offsets_metadata\<close>
  and in a result of \<open>get_current_offsets\<close> in the mode \<open>dual\<close>. A partition
  that is seen, and seen with negative offsets only, is merged to 0.
\<close>

theorem merged_offsets_nonnegative:
  "((p, v) \<in> set (merge_partition_offsets sources) \<longrightarrow> 0 \<le> v) \<and>
   ((topic, d) \<in> set (merge_offsets_metadata topics responses) \<and> (p, v) \<in> set d \<longrightarrow>
      0 \<le> v) \<and>
   (fst (get_current_offsets env s group' topics raise_on_error ''dual'') = Inr merged \<and>
    (topic, d) \<in> set merged \<and> (p, v) \<in> set d \<longrightarrow> 0 \<le> v) \<and>
   (seen_offsets sources p \<noteq> [] \<and> (\<forall>x \<in> set (seen_offsets sources p). x < 0) \<longrightarrow>
      map_of (merge_partition_offsets sources) p = Some 0)"
proof (intro conjI impI)
  show "0 \<le> v" if "(p, v) \<in> set (merge_partition_offsets sources)"
    using that by (rule merge_partition_offsets_item_nonneg)
  show "0 \<le> v"
    if "(topic, d) \<in> set (merge_offsets_metadata topics responses) \<and> (p, v) \<in> set d"
  proof -
    from that have "(p, v) \<in> set (merge_partition_offsets
        (List.map_filter (\<lambda>response. map_of response topic) responses))"
      using merge_offsets_metadata_items [of topic d topics responses] by simp
    then show ?thesis by (rule merge_partition_offsets_item_nonneg)
  qed
  show "0 \<le> v"
    if a: "fst (get_current_offsets env s group' topics raise_on_error ''dual'') = Inr merged \<and>
      (topic, d) \<in> set merged \<and> (p, v) \<in> set d"
  proof -
    from a dual_result_is_merge [of env s group' topics raise_on_error merged]
    obtain zk kf where "merged = merge_offsets_metadata topics [zk, kf]" by blast
    with a have "(p, v) \<in> set (merge_partition_offsets
        (List.map_filter (\<lambda>response. map_of response topic) [zk, kf]))"
      using merge_offsets_metadata_items [of topic d topics "[zk, kf]"] by simp
    then show ?thesis by (rule merge_partition_offsets_item_nonneg)
  qed
  show "map_of (merge_partition_offsets sources) p = Some 0"
    if a: "seen_offsets sources p \<noteq> [] \<and> (\<forall>x \<in> set (seen_offsets sources p). x < 0)"
  proof -
    from a have "Max (set (seen_offsets sources p)) \<in> set (seen_offsets sources p)"
      by (intro Max_in) simp_all
    with a have "Max (set (seen_offsets sources p)) < 0" by blast
    then have "max 0 (Max (set (seen_offsets sources p))) = 0" by linarith
    with a show ?thesis by (simp only: merge_partition_offsets_lookup if_False)
  qed
qed

text \<open>
  Claim C10 at the sources \<open>{0: -5}\<close> and \<open>{0: -3, 1: 4}\<close>, which merge to
  \<open>{0: 0, 1: 4}\<close>, at the one response \<open>{t: {0: -5}}\<close>, and at the dual mode on
  the example cluster.
\<close>

theorem merged_offsets_nonnegative_witness:
  "merge_partition_offsets [[(0, - 5)], [(0, - 3), (1, 4)]] = [(0, 0), (1, 4)] \<and>
   seen_offsets [[(0, - 5)], [(0, - 3), (1, 4)]] 0 = [- 5, - 3] \<and>
   map_of (merge_partition_offsets [[(0, - 5)], [(0, - 3), (1, 4)]]) 0 = Some 0 \<and>
   merge_offsets_metadata [''t''] [[(''t'', [(0, - 5)])]] = [(''t'', [(0, 0)])] \<and>
   fst (get_current_offsets example_cluster (client_after 0) ''g'' [''t''] True ''dual'') =
     Inr [(''t'', [(0, 7)])] \<and>
   (0::int) \<le> 4 \<and> (0::int) \<le> 0 \<and> (0::int) \<le> 7"
proof -
  let ?S = "[[(0::int, - 5::int)], [(0, - 3), (1, 4)]]"
  have m: "merge_partition_offsets ?S = [(0, 0), (1, 4)]"
    by (simp add: merge_partition_offsets_def dict_get_def)
  have seen: "seen_offsets ?S 0 = [- 5, - 3]"
    by (simp add: seen_offsets_def offsets_for_def)
  have mm: "merge_offsets_metadata [''t''] [[(''t'', [(0, - 5)])]] = [(''t'', [(0, 0)])]"
    by (simp add: merge_offsets_metadata_def merge_partition_offsets_def
          List.map_filter_simps dict_get_def)
  have dual: "fst (get_current_offsets example_cluster (client_after 0) ''g'' [''t''] True
      ''dual'') = Inr [(''t'', [(0, 7)])]"
    by (simp add: dual_unfold dual_zk_ok [of _ _ _ _ "[(''t'', [(0, 5)])]"] example_zk_fetch
          example_kafka_call merge_offsets_metadata_def merge_partition_offsets_def
          List.map_filter_simps dict_get_def)
  from merged_offsets_nonnegative [of 1 4 ?S "''t''" "[(0, 0)]" "[''t'']"
      "[[(''t'', [(0, - 5)])]]" example_cluster "client_after 0" "''g''" True
      "[(''t'', [(0, 7)])]"]
    merged_offsets_nonnegative [of 0 0 ?S "''t''" "[(0, 0)]" "[''t'']"
      "[[(''t'', [(0, - 5)])]]" example_cluster "client_after 0" "''g''" True
      "[(''t'', [(0, 7)])]"]
    m seen mm dual
  show ?thesis by simp
qed

section \<open>Facts about the assembler\<close>

lemma wf_dict_item:
  "wf_dict d \<Longrightarrow> (k, v) \<in> set d \<Longrightarrow> map_of d k = Some v"
  by (simp add: wf_dict_def)

lemma partition_snapshots_step:
  assumes "map_of go t = Some ps" and "map_of ps p = Some cur"
    and "map_of wm t = Some wt" and "map_of wt p = Some w"
  shows "partition_snapshots go wm t (p # rest) =
     bind_err (partition_snapshots go wm t rest) (\<lambda>snapshots.
       Inr (\<lparr>cpo_topic = t, cpo_partition = p, cpo_current = cur,
             cpo_highmark = po_highmark w, cpo_lowmark = po_lowmark w\<rparr> # snapshots))"
  using assms by (simp add: lookup_def bind_err_def)

lemma partition_snapshots_ok:
  assumes go: "map_of go t = Some ps" and wf: "wf_dict ps"
  shows "set items \<subseteq> set ps \<Longrightarrow> \<forall>item \<in> set items. snapshot_of wm t item \<noteq> None \<Longrightarrow>
    \<exists>snaps. partition_snapshots go wm t (map fst items) = Inr snaps \<and>
            map Some snaps = map (snapshot_of wm t) items"
proof (induction items)
  case Nil
  show ?case by simp
next
  case (Cons item items)
  obtain p cur where item: "item = (p, cur)" by (cases item)
  from Cons.prems item have "(p, cur) \<in> set ps" by simp
  with wf have cur: "map_of ps p = Some cur" by (rule wf_dict_item)
  from Cons.prems item have "snapshot_of wm t (p, cur) \<noteq> None" by simp
  then obtain wt w where wt: "map_of wm t = Some wt" and w: "map_of wt p = Some w"
    by (auto simp: snapshot_of_def split: option.splits)
  from Cons.IH Cons.prems obtain snaps
    where rest: "partition_snapshots go wm t (map fst items) = Inr snaps"
      and snaps: "map Some snaps = map (snapshot_of wm t) items"
    by auto
  have "partition_snapshots go wm t (map fst (item # items)) =
      Inr (\<lparr>cpo_topic = t, cpo_partition = p, cpo_current = cur,
             cpo_highmark = po_highmark w, cpo_lowmark = po_lowmark w\<rparr> # snaps)"
    by (simp only: item list.map fst_conv partition_snapshots_step [OF go cur wt w] rest)
      (simp add: bind_err_def)
  moreover have "snapshot_of wm t item =
      Some \<lparr>cpo_topic = t, cpo_partition = p, cpo_current = cur,
             cpo_highmark = po_highmark w, cpo_lowmark = po_lowmark w\<rparr>"
    by (simp add: snapshot_of_def item wt w)
  ultimately show ?case using snaps by simp
qed

lemma topic_snapshots_ok:
  "\<forall>entry \<in> set items. covered go wm entry \<Longrightarrow>
   distinct (map fst acc @ map fst items) \<Longrightarrow>
   \<exists>result. topic_snapshots go wm items acc = Inr result \<and>
     map fst result = map fst acc @ map fst items \<and>
     (\<forall>entry \<in> set items. \<exists>snaps. map_of result (fst entry) = Some snaps \<and>
        map Some snaps = map (snapshot_of wm (fst entry)) (snd entry)) \<and>
     (\<forall>t. t \<notin> fst ` set items \<longrightarrow> map_of result t = map_of acc t)"
proof (induction items arbitrary: acc)
  case Nil
  show ?case by simp
next
  case (Cons entry items)
  obtain t ps where entry: "entry = (t, ps)" by (cases entry)
  from Cons.prems(1) entry have cov: "covered go wm (t, ps)" by simp
  then obtain snaps where ps: "partition_snapshots go wm t (map fst ps) = Inr snaps"
    and snaps: "map Some snaps = map (snapshot_of wm t) ps"
    using partition_snapshots_ok [of go t ps ps wm] by (auto simp: covered_def)
  let ?acc = "AList.update t snaps acc"
  from Cons.prems(2) entry have fresh: "t \<notin> set (map fst acc)" and later: "t \<notin> fst ` set items"
    by auto
  from fresh have keys: "map fst ?acc = map fst acc @ [t]"
    by (simp add: update_keys)
  with Cons.prems(2) entry have dist: "distinct (map fst ?acc @ map fst items)"
    by simp
  from Cons.prems(1) have "\<forall>entry \<in> set items. covered go wm entry" by simp
  from Cons.IH [OF this dist] obtain result
    where run: "topic_snapshots go wm items ?acc = Inr result"
      and rkeys: "map fst result = map fst ?acc @ map fst items"
      and each: "\<forall>entry \<in> set items. \<exists>snaps. map_of result (fst entry) = Some snaps \<and>
        map Some snaps = map (snapshot_of wm (fst entry)) (snd entry)"
      and other: "\<forall>t. t \<notin> fst ` set items \<longrightarrow> map_of result t = map_of ?acc t"
    by blast
  have "topic_snapshots go wm (entry # items) acc = Inr result"
    by (simp add: entry ps bind_err_def run)
  moreover have "map fst result = map fst acc @ map fst (entry # items)"
    by (simp add: rkeys keys entry)
  moreover have "map_of result t = Some snaps"
    using other later by (simp add: update_conv')
  moreover have "\<forall>t'. t' \<notin> fst ` set (entry # items) \<longrightarrow> map_of result t' = map_of acc t'"
    using other by (simp add: entry update_conv')
  ultimately show ?case using each snaps by (simp add: entry)
qed

lemma example_refresh:
  "refresh_metadata example_cluster (client_after 0) =
     (Inr (), \<lparr>kafka_client = 2, calls = [LoadMetadataForTopics, LoadMetadataForTopics]\<rparr>)"
  by (simp add: refresh_metadata_def call_load_metadata_for_topics_def example_cluster_def
        client_after_def)

lemma example_offsets:
  "get_current_offsets example_cluster
     \<lparr>kafka_client = 2, calls = [LoadMetadataForTopics, LoadMetadataForTopics]\<rparr>
     ''g'' [''t''] True ''dual'' =
     (Inr [(''t'', [(0, 7)])],
      \<lparr>kafka_client = 4,
        calls = [LoadMetadataForTopics, LoadMetadataForTopics,
                 GetCurrentConsumerOffsets ''g'' [''t''] False ''zookeeper'',
                 GetCurrentConsumerOffsets ''g'' [''t''] False ''kafka'']\<rparr>)"
  by (simp add: get_current_offsets_def get_current_offsets_dual_def
        call_get_current_consumer_offsets_def example_cluster_def
        merge_offsets_metadata_def merge_partition_offsets_def List.map_filter_simps
        dict_get_def)

lemma example_watermarks:
  "call_get_topics_watermarks example_cluster \<lparr>kafka_client = 4, calls = cs\<rparr> [''t''] True =
     (Inr [(''t'', [(0, \<lparr>po_highmark = 10, po_lowmark = 1\<rparr>)])],
      \<lparr>kafka_client = 5, calls = cs @ [GetTopicsWatermarks [''t''] True]\<rparr>)"
  by (simp add: call_get_topics_watermarks_def example_cluster_def)

section \<open>The claim on the assembler\<close>

text \<open>
  Claim C7: when the metadata refresh, the offset reconciliation and the watermark
  fetch succeed, the reconciled offsets being a dictionary of dictionaries, and the
  watermark result has an entry for every topic and partition of the reconciled
  offsets, \<open>get_consumer_offsets_metadata\<close> returns a mapping whose keys are the
  topics of the reconciled offsets, each topic mapped to the list of the snapshots of
  its partitions, one per partition: the current offset is the reconciled one, the
  high and low marks are those of the partition's watermark entry.
\<close>

theorem get_consumer_offsets_metadata_snapshots:
  assumes refresh: "refresh_metadata env s = (Inr (), s1)"
    and offsets: "get_current_offsets env s1 group' topics raise_on_error offset_storage =
                    (Inr group_offsets, s2)"
    and marks: "call_get_topics_watermarks env s2 topics raise_on_error = (Inr watermarks, s3)"
    and wf: "wf_dict group_offsets"
    and wf_topics: "\<forall>entry \<in> set group_offsets. wf_dict (snd entry)"
    and entries: "\<forall>entry \<in> set group_offsets. \<forall>item \<in> set (snd entry).
                    snapshot_of watermarks (fst entry) item \<noteq> None"
  shows "\<exists>result.
           get_consumer_offsets_metadata env s group' topics raise_on_error offset_storage =
             (Inr result, s3) \<and>
           map fst result = map fst group_offsets \<and>
           (\<forall>entry \<in> set group_offsets. \<exists>snapshots.
              map_of result (fst entry) = Some snapshots \<and>
              map Some snapshots = map (snapshot_of watermarks (fst entry)) (snd entry))"
proof -
  have "\<forall>entry \<in> set group_offsets. covered group_offsets watermarks entry"
  proof
    fix entry assume mem: "entry \<in> set group_offsets"
    then have "(fst entry, snd entry) \<in> set group_offsets" by simp
    with wf have "map_of group_offsets (fst entry) = Some (snd entry)"
      by (rule wf_dict_item)
    with mem wf_topics entries show "covered group_offsets watermarks entry"
      by (simp add: covered_def)
  qed
  moreover from wf have "distinct (map fst ([] :: (string, ConsumerPartitionOffsets list) dict)
      @ map fst group_offsets)"
    by (simp add: wf_dict_def)
  ultimately obtain result
    where run: "topic_snapshots group_offsets watermarks group_offsets [] = Inr result"
      and keys: "map fst result = map fst group_offsets"
      and each: "\<forall>entry \<in> set group_offsets. \<exists>snapshots.
              map_of result (fst entry) = Some snapshots \<and>
              map Some snapshots = map (snapshot_of watermarks (fst entry)) (snd entry)"
    using topic_snapshots_ok [of group_offsets group_offsets watermarks "[]"] by auto
  have "get_consumer_offsets_metadata env s group' topics raise_on_error offset_storage =
      (Inr result, s3)"
    by (simp add: get_consumer_offsets_metadata_def refresh offsets marks run)
  with keys each show ?thesis by blast
qed

text \<open>
  Claim C7 on the example cluster, in the mode \<open>dual\<close> on a fresh client: two
  metadata loads, the two fetches and the watermark fetch are made, and partition 0
  of \<open>t\<close> has the snapshot with current offset 7, high mark 10 and low mark 1.
\<close>

theorem get_consumer_offsets_metadata_snapshots_witness:
  "get_consumer_offsets_metadata example_cluster (client_after 0) ''g'' [''t''] True ''dual'' =
     (Inr [(''t'', [\<lparr>cpo_topic = ''t'', cpo_partition = 0, cpo_current = 7,
                      cpo_highmark = 10, cpo_lowmark = 1\<rparr>])],
      \<lparr>kafka_client = 5,
        calls = [LoadMetadataForTopics, LoadMetadataForTopics,
                 GetCurrentConsumerOffsets ''g'' [''t''] False ''zookeeper'',
                 GetCurrentConsumerOffsets ''g'' [''t''] False ''kafka'',
                 GetTopicsWatermarks [''t''] True]\<rparr>)"
proof -
  let ?go = "[(''t'', [(0::int, 7::int)])]"
  let ?wm = "[(''t'', [(0::int, \<lparr>po_highmark = 10, po_lowmark = 1\<rparr>)])]"
  let ?snap = "\<lparr>cpo_topic = ''t'', cpo_partition = 0, cpo_current = 7,
                 cpo_highmark = 10, cpo_lowmark = 1\<rparr>"
  have wf: "wf_dict ?go" by (simp add: wf_dict_def)
  have wf_topics: "\<forall>entry \<in> set ?go. wf_dict (snd entry)" by (simp add: wf_dict_def)
  have snap: "snapshot_of ?wm ''t'' (0, 7) = Some ?snap"
    by (simp add: snapshot_of_def)
  then have entries: "\<forall>entry \<in> set ?go. \<forall>item \<in> set (snd entry).
      snapshot_of ?wm (fst entry) item \<noteq> None"
    by simp
  from get_consumer_offsets_metadata_snapshots
         [OF example_refresh example_offsets example_watermarks wf wf_topics entries]
  obtain result where run: "get_consumer_offsets_metadata example_cluster (client_after 0)
        ''g'' [''t''] True ''dual'' =
      (Inr result,
       \<lparr>kafka_client = 5,
         calls = [LoadMetadataForTopics, LoadMetadataForTopics,
                  GetCurrentConsumerOffsets ''g'' [''t''] False ''zookeeper'',
                  GetCurrentConsumerOffsets ''g'' [''t''] False ''kafka'',
                  GetTopicsWatermarks [''t''] True]\<rparr>)"
    and keys: "map fst result = [''t'']"
    and each: "\<exists>snapshots. map_of result ''t'' = Some snapshots \<and>
        map Some snapshots = [snapshot_of ?wm ''t'' (0, 7)]"
    by auto
  from each snap have "map_of result ''t'' = Some [?snap]" by auto
  with keys have "result = [(''t'', [?snap])]"
    by (cases result) (auto split: if_splits)
  with run show ?thesis by simp
qed

section \<open>Facts about the replica health evaluator\<close>

lemma flag_replicas_get:
  "set (dict_get (flag_replicas t p in_sync rs result) b []) =
     set (dict_get result b []) \<union>
     (if b \<in> set rs \<and> b \<notin> set in_sync then {(t, p)} else {})"
  by (induction rs arbitrary: result) (auto simp: dict_get_def update_conv')

lemma flag_replicas_no_empty:
  "no_empty result \<Longrightarrow> no_empty (flag_replicas t p in_sync rs result)"
proof (induction rs arbitrary: result)
  case Nil
  then show ?case by simp
next
  case (Cons r rs)
  from Cons.prems
  have "no_empty (AList.update r (dict_get result r [] @ [(t, p)]) result)"
    by (simp add: no_empty_def update_conv')
  with Cons.prems show ?case
    by (simp add: Cons.IH)
qed

lemma process_partitions_get:
  "set (dict_get (process_partitions t parts min_rf result) b []) =
     set (dict_get result b []) \<union>
     set (map (\<lambda>item. (t, fst item))
            (filter (\<lambda>item. below_threshold min_rf b (snd item)) parts))"
proof (induction parts arbitrary: result)
  case Nil
  show ?case by simp
next
  case (Cons item parts)
  obtain p m where item: "item = (p, m)" by (cases item)
  show ?case
    by (auto simp: item Cons.IH flag_replicas_get below_threshold_def)
qed

lemma process_partitions_no_empty:
  "no_empty result \<Longrightarrow> no_empty (process_partitions t parts min_rf result)"
proof (induction parts arbitrary: result)
  case Nil
  then show ?case by simp
next
  case (Cons item parts)
  obtain p m where item: "item = (p, m)" by (cases item)
  from Cons.prems show ?case
    by (simp add: item Cons.IH flag_replicas_no_empty)
qed

lemma process_topics_get:
  "set (dict_get (process_topics batch min_rf result) b []) =
     set (dict_get result b []) \<union> set (flagged_pairs batch min_rf b)"
proof (induction batch arbitrary: result)
  case Nil
  show ?case by (simp add: flagged_pairs_def)
next
  case (Cons entry batch)
  obtain t parts where entry: "entry = (t, parts)" by (cases entry)
  have "flagged_pairs (entry # batch) min_rf b =
      map (\<lambda>item. (t, fst item))
        (filter (\<lambda>item. below_threshold min_rf b (snd item)) parts) @
      flagged_pairs batch min_rf b"
    by (simp add: flagged_pairs_def entry)
  then show ?case
    by (simp add: entry Cons.IH process_partitions_get Un_assoc)
qed

lemma process_topics_no_empty:
  "no_empty result \<Longrightarrow> no_empty (process_topics batch min_rf result)"
proof (induction batch arbitrary: result)
  case Nil
  then show ?case by simp
next
  case (Cons entry batch)
  obtain t parts where entry: "entry = (t, parts)" by (cases entry)
  from Cons.prems show ?case
    by (simp add: entry Cons.IH process_partitions_no_empty)
qed

lemma process_lookup:
  "(case map_of (process_topic_partition_metadata batch min_rf) b of
      None \<Rightarrow> flagged_pairs batch min_rf b = []
    | Some pairs \<Rightarrow> pairs \<noteq> [] \<and> set pairs = set (flagged_pairs batch min_rf b))"
proof -
  let ?R = "process_topic_partition_metadata batch min_rf"
  have "dict_get ([] :: under_replicated) b [] = []"
    by (simp add: dict_get_def)
  then have get: "set (dict_get ?R b []) = set (flagged_pairs batch min_rf b)"
    by (simp add: process_topic_partition_metadata_def process_topics_get)
  have "no_empty ([] :: under_replicated)"
    by (simp add: no_empty_def)
  then have "no_empty ?R"
    unfolding process_topic_partition_metadata_def by (rule process_topics_no_empty)
  then show ?thesis
    using get by (auto simp: no_empty_def dict_get_def split: option.splits)
qed

lemma set_flagged_pairs:
  "set (flagged_pairs batch min_rf b) =
     {(t, p). \<exists>parts m. (t, parts) \<in> set batch \<and> (p, m) \<in> set parts \<and>
        int (card (set (isr m))) < min_rf \<and> b \<in> set (replicas m) \<and> b \<notin> set (isr m)}"
  by (force simp: flagged_pairs_def below_threshold_def)

lemma process_all_good:
  assumes "\<forall>entry \<in> set batch. \<forall>item \<in> set (snd entry).
             min_rf \<le> int (card (set (isr (snd item))))"
  shows "process_topic_partition_metadata batch min_rf = []"
proof (cases "process_topic_partition_metadata batch min_rf")
  case Nil
  then show ?thesis .
next
  case (Cons a R)
  obtain b pairs where a: "a = (b, pairs)" by (cases a)
  have "set (flagged_pairs batch min_rf b) = {}"
  proof (rule ccontr)
    assume "set (flagged_pairs batch min_rf b) \<noteq> {}"
    then obtain t p parts m where "(t, parts) \<in> set batch" and "(p, m) \<in> set parts"
      and low: "int (card (set (isr m))) < min_rf"
      by (auto simp: set_flagged_pairs)
    with assms have "min_rf \<le> int (card (set (isr m)))" by force
    with low show False by simp
  qed
  moreover from Cons a
  have "map_of (process_topic_partition_metadata batch min_rf) b = Some pairs" by simp
  ultimately show ?thesis
    using process_lookup [of batch min_rf b] by simp
qed

lemma process_examples:
  "process_topic_partition_metadata METADATA_RESPONSE 2 = []"
  "process_topic_partition_metadata METADATA_RESPONSE 3 = [(300, [(''topic1'', 0)])]"
  "process_topic_partition_metadata METADATA_RESPONSE_FEW 2 =
     [(13, [(''topic0'', 0), (''topic1'', 1)]), (500, [(''topic1'', 1)])]"
  by (simp_all add: process_topic_partition_metadata_def METADATA_RESPONSE_def
        METADATA_RESPONSE_FEW_def dict_get_def)

section \<open>The claim on the replica health evaluator\<close>

text \<open>
  Claim C3: for every batch, threshold and broker id \<open>b\<close>, the result of
  \<open>process_topic_partition_metadata\<close> has \<open>b\<close> as a key exactly when some (topic,
  partition) entry of the batch has fewer in-sync replicas than the threshold and
  has \<open>b\<close> among its replicas but not in its isr, and then maps \<open>b\<close> to a list
  that holds exactly those pairs, in some order. So a partition whose isr reaches
  the threshold contributes nothing, whatever its replicas; the empty batch, and a
  batch of which every partition reaches the threshold, give the empty mapping. On
  the batch of the tests, in which partition 0 of \<open>topic1\<close> has the replicas 300,
  500, 666 and the isr 500, 666, the threshold 2 gives the empty mapping and the
  threshold 3 gives \<open>{300: [(topic1, 0)]}\<close>; the second batch of the tests gives
  \<open>{13: [(topic0, 0), (topic1, 1)], 500: [(topic1, 1)]}\<close> for the threshold 2.
\<close>

theorem process_topic_partition_metadata_flags:
  "(case map_of (process_topic_partition_metadata batch min_rf) b of
      None \<Rightarrow> flagged_pairs batch min_rf b = []
    | Some pairs \<Rightarrow> pairs \<noteq> [] \<and> set pairs = set (flagged_pairs batch min_rf b)) \<and>
   set (flagged_pairs batch min_rf b) =
     {(t, p). \<exists>parts m. (t, parts) \<in> set batch \<and> (p, m) \<in> set parts \<and>
        int (card (set (isr m))) < min_rf \<and> b \<in> set (replicas m) \<and> b \<notin> set (isr m)} \<and>
   process_topic_partition_metadata [] min_rf = [] \<and>
   ((\<forall>entry \<in> set batch. \<forall>item \<in> set (snd entry).
       min_rf \<le> int (card (set (isr (snd item))))) \<longrightarrow>
      process_topic_partition_metadata batch min_rf = []) \<and>
   process_topic_partition_metadata METADATA_RESPONSE 2 = [] \<and>
   process_topic_partition_metadata METADATA_RESPONSE 3 = [(300, [(''topic1'', 0)])] \<and>
   process_topic_partition_metadata METADATA_RESPONSE_FEW 2 =
     [(13, [(''topic0'', 0), (''topic1'', 1)]), (500, [(''topic1'', 1)])]"
proof (intro conjI impI)
  show "case map_of (process_topic_partition_metadata batch min_rf) b of
      None \<Rightarrow> flagged_pairs batch min_rf b = []
    | Some pairs \<Rightarrow> pairs \<noteq> [] \<and> set pairs = set (flagged_pairs batch min_rf b)"
    by (rule process_lookup)
  show "set (flagged_pairs batch min_rf b) =
     {(t, p). \<exists>parts m. (t, parts) \<in> set batch \<and> (p, m) \<in> set parts \<and>
        int (card (set (isr m))) < min_rf \<and> b \<in> set (replicas m) \<and> b \<notin> set (isr m)}"
    by (rule set_flagged_pairs)
  show "process_topic_partition_metadata [] min_rf = []"
    by (simp add: process_topic_partition_metadata_def)
  show "process_topic_partition_metadata batch min_rf = []"
    if "\<forall>entry \<in> set batch. \<forall>item \<in> set (snd entry).
       min_rf \<le> int (card (set (isr (snd item))))"
    using that by (rule process_all_good)
  show "process_topic_partition_metadata METADATA_RESPONSE 2 = []"
    by (rule process_examples)
  show "process_topic_partition_metadata METADATA_RESPONSE 3 = [(300, [(''topic1'', 0)])]"
    by (rule process_examples)
  show "process_topic_partition_metadata METADATA_RESPONSE_FEW 2 =
     [(13, [(''topic0'', 0), (''topic1'', 1)]), (500, [(''topic1'', 1)])]"
    by (rule process_examples)
qed

text \<open>
  Claim C3 on the first batch of the tests: with the threshold 3 the broker 300 is
  flagged for partition 0 of \<open>topic1\<close> and the broker 500 is not a key; every isr
  of the batch has at least 2 brokers, so the threshold 2 gives the empty mapping.
\<close>

theorem process_topic_partition_metadata_flags_witness:
  "flagged_pairs METADATA_RESPONSE 3 300 = [(''topic1'', 0)] \<and>
   map_of (process_topic_partition_metadata METADATA_RESPONSE 3) 300 = Some [(''topic1'', 0)] \<and>
   flagged_pairs METADATA_RESPONSE 3 500 = [] \<and>
   map_of (process_topic_partition_metadata METADATA_RESPONSE 3) 500 = None \<and>
   int (card (set [13, 100 :: int])) = 2 \<and> int (card (set [500, 666 :: int])) = 2 \<and>
   int (card (set [300, 500, 666 :: int])) = 3 \<and>
   process_topic_partition_metadata METADATA_RESPONSE 2 = []"
proof -
  have f300: "flagged_pairs METADATA_RESPONSE 3 300 = [(''topic1'', 0)]"
    and f500: "flagged_pairs METADATA_RESPONSE 3 500 = []"
    by (simp_all add: flagged_pairs_def below_threshold_def METADATA_RESPONSE_def)
  have good: "\<forall>entry \<in> set METADATA_RESPONSE. \<forall>item \<in> set (snd entry).
       2 \<le> int (card (set (isr (snd item))))"
    by (simp add: METADATA_RESPONSE_def)
  note spec = process_topic_partition_metadata_flags [of METADATA_RESPONSE]
  have "process_topic_partition_metadata METADATA_RESPONSE 2 = []"
    using spec [of 2 0] good by blast
  moreover have "map_of (process_topic_partition_metadata METADATA_RESPONSE 3) 500 = None"
    using spec [of 3 500] f500 by (auto split: option.splits)
  moreover have "map_of (process_topic_partition_metadata METADATA_RESPONSE 3) 300 =
      Some [(''topic1'', 0)]"
    using spec [of 3 300] by simp
  ultimately show ?thesis using f300 f500 by simp
qed

end
